theory Spec2Isabelle
  imports Main "HOL-Library.Monad_Syntax"
begin

section \<open>JavaScript values and string operations\<close>

text \<open>
  Request fields whose JavaScript type is not fixed by the code (the fields of the request
  body, the boolean-like flags and the date of birth of the payload) are values of
  \<open>jsval\<close>. \<open>JDate s\<close> is a Date object whose ISO rendering is \<open>s\<close>; numbers are
  the integers. Strings are byte strings; \<open>toLowerCase\<close> and \<open>trim\<close> act on the ASCII
  range.
\<close>

datatype jsval = JUndefined | JNull | JBool bool | JNum int | JStr string | JDate string

fun truthy :: "jsval \<Rightarrow> bool" where
  "truthy JUndefined = False"
| "truthy JNull = False"
| "truthy (JBool b) = b"
| "truthy (JNum n) = (n \<noteq> 0)"
| "truthy (JStr s) = (s \<noteq> [])"
| "truthy (JDate d) = True"

definition toLowerCase_char :: "char \<Rightarrow> char" where
  "toLowerCase_char c =
     (case map_of (zip ''ABCDEFGHIJKLMNOPQRSTUVWXYZ'' ''abcdefghijklmnopqrstuvwxyz'') c of
        Some l \<Rightarrow> l
      | None \<Rightarrow> c)"

definition toLowerCase :: "string \<Rightarrow> string" where
  "toLowerCase s = map toLowerCase_char s"

definition isWhiteSpace :: "char \<Rightarrow> bool" where
  "isWhiteSpace c = (c \<in> set [CHR 0x09, CHR 0x0A, CHR 0x0B, CHR 0x0C, CHR 0x0D, CHR '' ''])"

definition trim :: "string \<Rightarrow> string" where
  "trim s = rev (dropWhile isWhiteSpace (rev (dropWhile isWhiteSpace s)))"

text \<open>\<open>String.prototype.includes\<close>: the needle occurs as a contiguous substring.\<close>

fun startsWith :: "string \<Rightarrow> string \<Rightarrow> bool" where
  "startsWith s [] = True"
| "startsWith [] (p # ps) = False"
| "startsWith (c # cs) (p # ps) = (c = p \<and> startsWith cs ps)"

fun includes_str :: "string \<Rightarrow> string \<Rightarrow> bool" where
  "includes_str [] needle = (needle = [])"
| "includes_str (c # cs) needle = (startsWith (c # cs) needle \<or> includes_str cs needle)"

text \<open>\<open>x || null\<close> on an optional string: the empty string is falsy.\<close>

definition or_null :: "string option \<Rightarrow> string option" where
  "or_null x = (case x of None \<Rightarrow> None | Some s \<Rightarrow> if s = [] then None else Some s)"

section \<open>Errors, files and library functions\<close>

text \<open>A thrown \<open>Error\<close> with its message.\<close>

datatype error = Error string

datatype 'a json_file = Missing | Unparsable | Parsed 'a

text \<open>\<open>JSON.parse(await fs.readFile(f, 'utf8'))\<close>: rejects when the file is missing or
  does not hold JSON. Writing a file of the data directory is taken to succeed.\<close>

definition readJSON :: "'a json_file \<Rightarrow> error + 'a" where
  "readJSON f =
     (case f of
        Missing \<Rightarrow> Inl (Error ''ENOENT: no such file or directory'')
      | Unparsable \<Rightarrow> Inl (Error ''Unexpected token in JSON'')
      | Parsed x \<Rightarrow> Inr x)"

text \<open>
  Functions of the libraries the code calls (bcryptjs, Joi, the URL and Date constructors,
  the regular expression of the schema) are parameters of the model: \<open>bcrypt_hash p s\<close> is
  \<open>bcrypt.hash(p, s)\<close>, \<open>new_Date v\<close> the ISO rendering of \<open>new Date(v)\<close>
  (\<open>None\<close> for an invalid date, which JSON writes as null; the model does not tell it
  from an absent date), \<open>in_past d\<close> is \<open>d < new Date()\<close>.
\<close>

record lib =
  bcrypt_hash :: "string \<Rightarrow> string \<Rightarrow> string"
  new_Date :: "jsval \<Rightarrow> string option"
  in_past :: "string \<Rightarrow> bool"
  email_regex :: "string \<Rightarrow> bool"
  joi_email :: "string \<Rightarrow> bool"
  joi_iso_date :: "string \<Rightarrow> bool"
  URL_ok :: "string \<Rightarrow> bool"

section \<open>Data model\<close>

record photo =
  filename :: string
  originalName :: string
  mimetype :: string
  sizeB :: nat
  path :: string

record stats =
  totalUsers :: nat
  totalRegistrations :: nat
  lastRegistration :: "string option"
  createdAt :: string

text \<open>The request body \<open>req.body\<close>: every field may hold any value, \<open>JUndefined\<close>
  when the key is absent. The same type holds the preprocessed body.\<close>

record body =
  name :: jsval
  email :: jsval
  password :: jsval
  phone :: jsval
  date_of_birth :: jsval
  gender :: jsval
  address :: jsval
  city :: jsval
  state :: jsval
  postal_code :: jsval
  country :: jsval
  occupation :: jsval
  company :: jsval
  website :: jsval
  emergency_contact_name :: jsval
  emergency_contact_phone :: jsval
  newsletter_subscription :: jsval
  terms_accepted :: jsval

text \<open>The \<open>value\<close> that a successful validation returns: the types are those the
  schema guarantees; an optional text is \<open>None\<close> when it is undefined or null.\<close>

record joi_value =
  name :: string
  email :: string
  password :: string
  phone :: string
  date_of_birth :: jsval
  gender :: "string option"
  address :: "string option"
  city :: "string option"
  state :: "string option"
  postal_code :: "string option"
  country :: "string option"
  occupation :: "string option"
  company :: "string option"
  website :: "string option"
  emergency_contact_name :: "string option"
  emergency_contact_phone :: "string option"
  newsletter_subscription :: jsval
  terms_accepted :: jsval

text \<open>The file that multer stored, \<open>req.file\<close>.\<close>

record upload =
  file_filename :: string
  file_originalname :: string
  file_mimetype :: string
  file_size :: nat
  file_path :: string

text \<open>The payload \<open>userData\<close> that the route hands to \<open>createUser\<close>.\<close>

record userData =
  name :: string
  email :: string
  password :: string
  phone :: string
  dateOfBirth :: jsval
  gender :: "string option"
  address :: "string option"
  city :: "string option"
  state :: "string option"
  postalCode :: "string option"
  country :: "string option"
  occupation :: "string option"
  company :: "string option"
  website :: "string option"
  emergencyContactName :: "string option"
  emergencyContactPhone :: "string option"
  profilePhoto :: "photo option"
  newsletterSubscription :: jsval
  termsAccepted :: jsval

text \<open>An identifier is a string (a UUID, or the text of an identifier read from JSON) or
  an \<open>ObjectId\<close> of the MongoDB driver.\<close>

datatype ident = IdString string | ObjectId string

fun id_text :: "ident \<Rightarrow> string" where
  "id_text (IdString s) = s"
| "id_text (ObjectId s) = s"

text \<open>
  A user record, in either store. \<open>uid\<close> is the key \<open>_id\<close>; \<open>uid\<close> and
  \<open>password\<close> are \<open>None\<close> when the object has no such key (the code deletes both
  keys in places). Dates are kept as their ISO strings.
\<close>

record user =
  uid :: "ident option"
  name :: string
  email :: string
  password :: "string option"
  phone :: string
  dateOfBirth :: "string option"
  gender :: "string option"
  address :: "string option"
  city :: "string option"
  state :: "string option"
  postalCode :: "string option"
  country :: "string option"
  occupation :: "string option"
  company :: "string option"
  website :: "string option"
  emergencyContactName :: "string option"
  emergencyContactPhone :: "string option"
  profilePhoto :: "photo option"
  newsletterSubscription :: bool
  termsAccepted :: bool
  status :: string
  emailVerified :: bool
  createdAt :: "string option"
  updatedAt :: "string option"
  lastLogin :: "string option"
  loginCount :: nat

text \<open>
  The files of the data directory, the coordinator's flag, whether the mongoose module and
  the \<open>User\<close> model could be loaded, and the collection of the MongoDB server.
\<close>

record world =
  usersFile :: "user list json_file"
  statsFile :: "stats json_file"
  mongoConnected :: bool
  mongoose_loaded :: bool
  User_loaded :: bool
  mongo :: "user list"

section \<open>The Mongoose model \<open>User\<close>\<close>

text \<open>
  What one \<open>save\<close> takes from outside: the salt that \<open>bcrypt.genSalt\<close> returns in
  the pre-save hook, the text of the \<open>ObjectId\<close> generated for a document without
  \<open>_id\<close>, and whether the driver throws on the operation (a lost connection, a time-out,
  an error of the server).
\<close>

record save_env =
  hook_salt :: string
  new_ObjectId :: string
  db_error :: bool

definition isObjectId :: "string \<Rightarrow> bool" where
  "isObjectId s = (length s = 24 \<and> list_all (\<lambda>c. c \<in> set ''0123456789abcdefABCDEF'') s)"

text \<open>\<open>new User(obj)\<close>: the setters of the schema (\<open>trim\<close>, \<open>lowercase\<close>) are
  applied; a document without \<open>_id\<close> gets a generated one, and a given string is cast
  to an \<open>ObjectId\<close> when it has the format of one.\<close>

definition User_new :: "string \<Rightarrow> user \<Rightarrow> user" where
  "User_new oid obj = obj
     \<lparr> uid := (case uid obj of
                 None \<Rightarrow> Some (ObjectId oid)
               | Some (IdString s) \<Rightarrow> if isObjectId s then Some (ObjectId s) else Some (IdString s)
               | Some (ObjectId s) \<Rightarrow> Some (ObjectId s)),
       name := trim (name obj),
       email := trim (toLowerCase (email obj)),
       phone := trim (phone obj),
       gender := map_option toLowerCase (gender obj),
       address := map_option trim (address obj),
       city := map_option trim (city obj),
       state := map_option trim (state obj),
       postalCode := map_option trim (postalCode obj),
       country := map_option trim (country obj),
       occupation := map_option trim (occupation obj),
       company := map_option trim (company obj),
       website := map_option trim (website obj),
       emergencyContactName := map_option trim (emergencyContactName obj),
       emergencyContactPhone := map_option trim (emergencyContactPhone obj) \<rparr>"

definition maxlength :: "nat \<Rightarrow> string option \<Rightarrow> bool" where
  "maxlength n v = (case v of None \<Rightarrow> True | Some s \<Rightarrow> length s \<le> n)"

text \<open>The validator of \<open>website\<close>: the value is falsy, or it starts with
  \<open>http://\<close> or \<open>https://\<close> followed by a character that is no line terminator.\<close>

definition dot_plus :: "string \<Rightarrow> bool" where
  "dot_plus r = (case r of [] \<Rightarrow> False | c # cs \<Rightarrow> c \<noteq> CHR 0x0A \<and> c \<noteq> CHR 0x0D)"

definition website_validator :: "string option \<Rightarrow> bool" where
  "website_validator v =
     (case v of
        None \<Rightarrow> True
      | Some s \<Rightarrow>
          if s = [] then True
          else (startsWith s ''http://'' \<and> dot_plus (drop 7 s))
             \<or> (startsWith s ''https://'' \<and> dot_plus (drop 8 s)))"

text \<open>The validation that \<open>save\<close> runs first: \<open>required\<close>, \<open>maxlength\<close>,
  \<open>minlength\<close>, \<open>match\<close>, \<open>enum\<close> and the custom validators of the schema.\<close>

definition schema_valid :: "lib \<Rightarrow> user \<Rightarrow> bool" where
  "schema_valid L d =
     ((case uid d of Some (ObjectId i) \<Rightarrow> True | _ \<Rightarrow> False)
    \<and> name d \<noteq> [] \<and> length (name d) \<le> 100
    \<and> email d \<noteq> [] \<and> email_regex L (email d)
    \<and> (case password d of None \<Rightarrow> False | Some p \<Rightarrow> p \<noteq> [] \<and> 6 \<le> length p)
    \<and> phone d \<noteq> [] \<and> length (phone d) \<le> 20
    \<and> (case dateOfBirth d of None \<Rightarrow> True | Some v \<Rightarrow> in_past L v)
    \<and> (case gender d of None \<Rightarrow> True
        | Some g \<Rightarrow> g \<in> set [''male'', ''female'', ''other'', ''prefer_not_to_say''])
    \<and> maxlength 500 (address d)
    \<and> maxlength 100 (city d)
    \<and> maxlength 100 (state d)
    \<and> maxlength 20 (postalCode d)
    \<and> maxlength 100 (country d)
    \<and> maxlength 100 (occupation d)
    \<and> maxlength 100 (company d)
    \<and> website_validator (website d)
    \<and> maxlength 100 (emergencyContactName d)
    \<and> maxlength 20 (emergencyContactPhone d)
    \<and> termsAccepted d
    \<and> status d \<in> set [''active'', ''inactive'', ''pending'', ''suspended''])"

text \<open>The pre-save hook: the password of a new document counts as modified, so it is
  hashed with a fresh salt.\<close>

definition pre_save :: "lib \<Rightarrow> string \<Rightarrow> user \<Rightarrow> user" where
  "pre_save L salt d = d\<lparr> password := map_option (\<lambda>p. bcrypt_hash L p salt) (password d) \<rparr>"

text \<open>\<open>doc.save()\<close>: validation, the pre-save hook, then the insert, which the unique
  index on \<open>email\<close> rejects for an address already in the collection.\<close>

definition User_save :: "lib \<Rightarrow> save_env \<Rightarrow> user \<Rightarrow> user list \<Rightarrow> error + user list" where
  "User_save L e doc coll =
     (if \<not> schema_valid L doc then Inl (Error ''User validation failed'')
      else
        let d = pre_save L (hook_salt e) doc in
        if db_error e then Inl (Error ''MongoError: operation failed'')
        else if email d \<in> set (map email coll) then Inl (Error ''E11000 duplicate key error'')
        else Inr (coll @ [d]))"

text \<open>\<open>User.findOne({ email: q })\<close>: the query value is cast with the setters of the
  path, then compared.\<close>

definition User_findOne :: "bool \<Rightarrow> string \<Rightarrow> user list \<Rightarrow> error + user option" where
  "User_findOne failing q coll =
     (if failing then Inl (Error ''MongoError: operation failed'')
      else Inr (find (\<lambda>d. email d = trim (toLowerCase q)) coll))"

section \<open>DualStorage\<close>

record init_env =
  readyState :: nat
  connect_ok :: bool
  init_now :: string

definition initFileStorage :: "string \<Rightarrow> world \<Rightarrow> world" where
  "initFileStorage now w =
     (let w1 = (case usersFile w of Missing \<Rightarrow> w\<lparr> usersFile := Parsed [] \<rparr> | _ \<Rightarrow> w)
      in case statsFile w1 of
           Missing \<Rightarrow>
             (let initialStats = \<lparr> totalUsers = 0, totalRegistrations = 0,
                                   lastRegistration = None, stats.createdAt = now \<rparr>
              in w1\<lparr> statsFile := Parsed initialStats \<rparr>)
         | _ \<Rightarrow> w1)"

definition initMongoStorage :: "init_env \<Rightarrow> world \<Rightarrow> world" where
  "initMongoStorage e w =
     (if readyState e = 0 then
        (if connect_ok e then w\<lparr> mongoConnected := True \<rparr>
         else w\<lparr> mongoConnected := False \<rparr>)
      else w\<lparr> mongoConnected := True \<rparr>)"

definition init :: "init_env \<Rightarrow> world \<Rightarrow> world" where
  "init e w =
     (let w1 = initFileStorage (init_now e) w
      in if mongoose_loaded w1 then initMongoStorage e w1 else w1)"

text \<open>What one \<open>createUser\<close> takes from outside: the identifier from \<open>uuidv4()\<close>,
  the salt from \<open>bcrypt.genSalt(12)\<close>, the readings of the clock, and the environment of
  the save to MongoDB.\<close>

record create_env =
  uuidv4 :: string
  genSalt :: string
  now_createdAt :: string
  now_updatedAt :: string
  now_stats :: string
  save_environment :: save_env

definition saveToFile :: "user \<Rightarrow> world \<Rightarrow> (error + unit) \<times> world" where
  "saveToFile userData w =
     (case readJSON (usersFile w) of
        Inl err \<Rightarrow> (Inl err, w)
      | Inr users \<Rightarrow>
          (case find (\<lambda>u. email u = email userData) users of
             Some existingUser \<Rightarrow> (Inl (Error ''User with this email already exists''), w)
           | None \<Rightarrow> (Inr (), w\<lparr> usersFile := Parsed (users @ [userData]) \<rparr>)))"

definition saveToMongo :: "lib \<Rightarrow> save_env \<Rightarrow> user \<Rightarrow> world \<Rightarrow> world" where
  "saveToMongo L e userData w =
     (let mongoData = userData\<lparr> uid := None \<rparr>;
          user = User_new (new_ObjectId e) mongoData
      in case User_save L e user (mongo w) of
           Inl err \<Rightarrow> w
         | Inr coll \<Rightarrow> w\<lparr> mongo := coll \<rparr>)"

definition updateStats :: "string \<Rightarrow> world \<Rightarrow> world" where
  "updateStats now w =
     (case readJSON (statsFile w) of
        Inl err \<Rightarrow> w
      | Inr stats \<Rightarrow>
          (let stats1 = stats\<lparr> totalRegistrations := totalRegistrations stats + 1,
                               lastRegistration := Some now \<rparr>
           in case readJSON (usersFile w) of
                Inl err \<Rightarrow> w
              | Inr users \<Rightarrow> w\<lparr> statsFile := Parsed (stats1\<lparr> totalUsers := length users \<rparr>) \<rparr>))"

definition newUser_of :: "lib \<Rightarrow> create_env \<Rightarrow> userData \<Rightarrow> user" where
  "newUser_of L e userData =
     (let salt = genSalt e;
          hashedPassword = bcrypt_hash L (userData.password userData) salt
      in \<lparr> uid = Some (IdString (uuidv4 e)),
           name = userData.name userData,
           email = toLowerCase (userData.email userData),
           password = Some hashedPassword,
           phone = userData.phone userData,
           dateOfBirth = (if truthy (userData.dateOfBirth userData)
                          then new_Date L (userData.dateOfBirth userData) else None),
           gender = or_null (userData.gender userData),
           address = or_null (userData.address userData),
           city = or_null (userData.city userData),
           state = or_null (userData.state userData),
           postalCode = or_null (userData.postalCode userData),
           country = or_null (userData.country userData),
           occupation = or_null (userData.occupation userData),
           company = or_null (userData.company userData),
           website = or_null (userData.website userData),
           emergencyContactName = or_null (userData.emergencyContactName userData),
           emergencyContactPhone = or_null (userData.emergencyContactPhone userData),
           profilePhoto = userData.profilePhoto userData,
           newsletterSubscription = (userData.newsletterSubscription userData = JBool True),
           termsAccepted = (userData.termsAccepted userData = JBool True),
           status = ''active'',
           emailVerified = False,
           createdAt = Some (now_createdAt e),
           updatedAt = Some (now_updatedAt e),
           lastLogin = None,
           loginCount = 0 \<rparr>)"

text \<open>\<open>createUser\<close> returns the outcome (the thrown error, or the user without its
  password) together with the world it leaves behind.\<close>

definition createUser :: "lib \<Rightarrow> create_env \<Rightarrow> userData \<Rightarrow> world \<Rightarrow> (error + user) \<times> world" where
  "createUser L e userData w =
     (let newUser = newUser_of L e userData
      in case saveToFile newUser w of
           (Inl err, w1) \<Rightarrow> (Inl err, w1)
         | (Inr _, w1) \<Rightarrow>
             (let w2 = (if mongoConnected w1 \<and> User_loaded w1
                        then saveToMongo L (save_environment e) newUser w1 else w1);
                  w3 = updateStats (now_stats e) w2;
                  userWithoutPassword = newUser\<lparr> password := None \<rparr>
              in (Inr userWithoutPassword, w3)))"

record storage_status =
  fileStorage_status :: string
  mongoStorage_status :: string
  mongoStorage_connection :: bool
  mode :: string

definition getStorageStatus :: "world \<Rightarrow> storage_status" where
  "getStorageStatus w =
     \<lparr> fileStorage_status = ''active'',
       mongoStorage_status = (if mongoConnected w then ''active'' else ''unavailable''),
       mongoStorage_connection = mongoConnected w,
       mode = (if mongoConnected w then ''dual'' else ''file-only'') \<rparr>"

section \<open>The registration route\<close>

text \<open>\<open>preprocessFormData\<close>: string and number flags become booleans, empty strings of
  the optional fields become null.\<close>

definition coerce_flag :: "jsval \<Rightarrow> jsval" where
  "coerce_flag v =
     (case v of
        JStr s \<Rightarrow> JBool (toLowerCase s = ''true'' \<or> s = ''1'')
      | JNum n \<Rightarrow> JBool (n = 1)
      | _ \<Rightarrow> v)"

definition empty_to_null :: "jsval \<Rightarrow> jsval" where
  "empty_to_null v = (if v = JStr [] then JNull else v)"

definition preprocessFormData :: "body \<Rightarrow> body" where
  "preprocessFormData data = data
     \<lparr> body.newsletter_subscription := coerce_flag (body.newsletter_subscription data),
       body.terms_accepted := coerce_flag (body.terms_accepted data),
       body.date_of_birth := empty_to_null (body.date_of_birth data),
       body.gender := empty_to_null (body.gender data),
       body.address := empty_to_null (body.address data),
       body.city := empty_to_null (body.city data),
       body.state := empty_to_null (body.state data),
       body.postal_code := empty_to_null (body.postal_code data),
       body.country := empty_to_null (body.country data),
       body.occupation := empty_to_null (body.occupation data),
       body.company := empty_to_null (body.company data),
       body.website := empty_to_null (body.website data),
       body.emergency_contact_name := empty_to_null (body.emergency_contact_name data),
       body.emergency_contact_phone := empty_to_null (body.emergency_contact_phone data) \<rparr>"

text \<open>The rules of \<open>registrationSchema\<close>, one function for each shape of rule; the
  result is \<open>None\<close> when the rule rejects the value, the converted value otherwise.\<close>

definition joi_text_required :: "nat \<Rightarrow> jsval \<Rightarrow> string option" where
  "joi_text_required n v =
     (case v of
        JStr s \<Rightarrow> (let t = trim s in if t = [] \<or> n < length t then None else Some t)
      | _ \<Rightarrow> None)"

definition joi_email_rule :: "lib \<Rightarrow> jsval \<Rightarrow> string option" where
  "joi_email_rule L v =
     (case v of
        JStr s \<Rightarrow> (let l = toLowerCase s in if l \<noteq> [] \<and> joi_email L l then Some l else None)
      | _ \<Rightarrow> None)"

definition joi_password :: "jsval \<Rightarrow> string option" where
  "joi_password v = (case v of JStr s \<Rightarrow> if 6 \<le> length s then Some s else None | _ \<Rightarrow> None)"

definition joi_date :: "lib \<Rightarrow> jsval \<Rightarrow> jsval" where
  "joi_date L v = (case v of JStr s \<Rightarrow> if joi_iso_date L s then JDate s else JStr s | _ \<Rightarrow> v)"

definition joi_gender :: "jsval \<Rightarrow> string option option" where
  "joi_gender v =
     (case v of
        JUndefined \<Rightarrow> Some None
      | JNull \<Rightarrow> Some None
      | JStr s \<Rightarrow>
          if s \<in> set [''male'', ''female'', ''other'', ''prefer_not_to_say'', []] then Some (Some s)
          else None
      | _ \<Rightarrow> None)"

definition joi_text_optional :: "nat \<Rightarrow> jsval \<Rightarrow> string option option" where
  "joi_text_optional n v =
     (case v of
        JUndefined \<Rightarrow> Some None
      | JStr s \<Rightarrow> (let t = trim s in if length t \<le> n then Some (Some t) else None)
      | _ \<Rightarrow> None)"

definition joi_website :: "lib \<Rightarrow> jsval \<Rightarrow> string option option" where
  "joi_website L v =
     (case v of
        JUndefined \<Rightarrow> Some None
      | JStr s \<Rightarrow>
          if s = [] then Some (Some s)
          else
            (let value = (if startsWith (toLowerCase s) ''http://''
                             \<or> startsWith (toLowerCase s) ''https://''
                          then s else ''http://'' @ s)
             in if URL_ok L value then Some (Some value) else None)
      | _ \<Rightarrow> None)"

text \<open>The alternatives of the two flags: a boolean, one of the strings \<open>true\<close>,
  \<open>false\<close>, \<open>1\<close>, \<open>0\<close>, or one of the numbers 0 and 1.\<close>

definition joi_flag :: "jsval \<Rightarrow> jsval option" where
  "joi_flag v =
     (case v of
        JBool b \<Rightarrow> Some (JBool b)
      | JStr s \<Rightarrow>
          if toLowerCase s = ''true'' then Some (JBool True)
          else if toLowerCase s = ''false'' then Some (JBool False)
          else if s \<in> set [''true'', ''false'', ''1'', ''0''] then Some (JStr s)
          else None
      | JNum n \<Rightarrow> if n = 0 \<or> n = 1 then Some (JNum n) else None
      | _ \<Rightarrow> None)"

definition joi_flag_optional :: "jsval \<Rightarrow> jsval option" where
  "joi_flag_optional v = (if v = JUndefined then Some JUndefined else joi_flag v)"

definition joi_flag_required :: "jsval \<Rightarrow> jsval option" where
  "joi_flag_required v = (if v = JUndefined then None else joi_flag v)"

definition registrationSchema_value :: "lib \<Rightarrow> body \<Rightarrow> joi_value option" where
  "registrationSchema_value L b =
     do {
       v_name \<leftarrow> joi_text_required 100 (body.name b);
       v_email \<leftarrow> joi_email_rule L (body.email b);
       v_password \<leftarrow> joi_password (body.password b);
       v_phone \<leftarrow> joi_text_required 20 (body.phone b);
       v_gender \<leftarrow> joi_gender (body.gender b);
       v_address \<leftarrow> joi_text_optional 500 (body.address b);
       v_city \<leftarrow> joi_text_optional 100 (body.city b);
       v_state \<leftarrow> joi_text_optional 100 (body.state b);
       v_postal_code \<leftarrow> joi_text_optional 20 (body.postal_code b);
       v_country \<leftarrow> joi_text_optional 100 (body.country b);
       v_occupation \<leftarrow> joi_text_optional 100 (body.occupation b);
       v_company \<leftarrow> joi_text_optional 100 (body.company b);
       v_website \<leftarrow> joi_website L (body.website b);
       v_ec_name \<leftarrow> joi_text_optional 100 (body.emergency_contact_name b);
       v_ec_phone \<leftarrow> joi_text_optional 20 (body.emergency_contact_phone b);
       v_newsletter \<leftarrow> joi_flag_optional (body.newsletter_subscription b);
       v_terms \<leftarrow> joi_flag_required (body.terms_accepted b);
       Some \<lparr> joi_value.name = v_name, joi_value.email = v_email,
              joi_value.password = v_password, joi_value.phone = v_phone,
              joi_value.date_of_birth = joi_date L (body.date_of_birth b),
              joi_value.gender = v_gender, joi_value.address = v_address,
              joi_value.city = v_city, joi_value.state = v_state,
              joi_value.postal_code = v_postal_code, joi_value.country = v_country,
              joi_value.occupation = v_occupation, joi_value.company = v_company,
              joi_value.website = v_website,
              joi_value.emergency_contact_name = v_ec_name,
              joi_value.emergency_contact_phone = v_ec_phone,
              joi_value.newsletter_subscription = v_newsletter,
              joi_value.terms_accepted = v_terms \<rparr>
     }"

text \<open>The fields named in \<open>error.details\<close> (\<open>abortEarly: false\<close>).\<close>

definition registrationSchema_details :: "lib \<Rightarrow> body \<Rightarrow> string list" where
  "registrationSchema_details L b =
     map fst (filter snd
       [(''name'', joi_text_required 100 (body.name b) = None),
        (''email'', joi_email_rule L (body.email b) = None),
        (''password'', joi_password (body.password b) = None),
        (''phone'', joi_text_required 20 (body.phone b) = None),
        (''gender'', joi_gender (body.gender b) = None),
        (''address'', joi_text_optional 500 (body.address b) = None),
        (''city'', joi_text_optional 100 (body.city b) = None),
        (''state'', joi_text_optional 100 (body.state b) = None),
        (''postal_code'', joi_text_optional 20 (body.postal_code b) = None),
        (''country'', joi_text_optional 100 (body.country b) = None),
        (''occupation'', joi_text_optional 100 (body.occupation b) = None),
        (''company'', joi_text_optional 100 (body.company b) = None),
        (''website'', joi_website L (body.website b) = None),
        (''emergency_contact_name'', joi_text_optional 100 (body.emergency_contact_name b) = None),
        (''emergency_contact_phone'', joi_text_optional 20 (body.emergency_contact_phone b) = None),
        (''newsletter_subscription'', joi_flag_optional (body.newsletter_subscription b) = None),
        (''terms_accepted'', joi_flag_required (body.terms_accepted b) = None)])"

definition registrationSchema_validate :: "lib \<Rightarrow> body \<Rightarrow> string list + joi_value" where
  "registrationSchema_validate L b =
     (case registrationSchema_value L b of
        None \<Rightarrow> Inl (registrationSchema_details L b)
      | Some v \<Rightarrow> Inr v)"

text \<open>The object \<open>userData\<close> that the route builds from \<open>value\<close> and \<open>req.file\<close>
  (of the spread of \<open>value\<close>, the keys that \<open>createUser\<close> reads).\<close>

definition userData_of :: "joi_value \<Rightarrow> upload option \<Rightarrow> userData" where
  "userData_of v req_file =
     \<lparr> userData.name = joi_value.name v,
       userData.email = joi_value.email v,
       userData.password = joi_value.password v,
       userData.phone = joi_value.phone v,
       userData.dateOfBirth = joi_value.date_of_birth v,
       userData.gender = joi_value.gender v,
       userData.address = joi_value.address v,
       userData.city = joi_value.city v,
       userData.state = joi_value.state v,
       userData.postalCode = joi_value.postal_code v,
       userData.country = joi_value.country v,
       userData.occupation = joi_value.occupation v,
       userData.company = joi_value.company v,
       userData.website = joi_value.website v,
       userData.emergencyContactName = joi_value.emergency_contact_name v,
       userData.emergencyContactPhone = joi_value.emergency_contact_phone v,
       userData.profilePhoto =
         (case req_file of
            None \<Rightarrow> None
          | Some f \<Rightarrow> Some \<lparr> filename = file_filename f, originalName = file_originalname f,
                             mimetype = file_mimetype f, sizeB = file_size f,
                             path = file_path f \<rparr>),
       userData.newsletterSubscription = joi_value.newsletter_subscription v,
       userData.termsAccepted = joi_value.terms_accepted v \<rparr>"

record response_user =
  r_id :: "ident option"
  r_name :: string
  r_email :: string
  r_phone :: string
  r_createdAt :: "string option"
  r_profilePhoto :: "(string \<times> string) option"

record response =
  statusCode :: nat
  success :: bool
  message :: string
  errors :: "string list"
  user_view :: "response_user option"
  storage :: "storage_status option"
  error_message :: "string option"

text \<open>The handler of \<open>POST /register\<close> after multer has run; \<open>development\<close> is
  \<open>process.env.NODE_ENV === 'development'\<close>.\<close>

definition register :: "lib \<Rightarrow> bool \<Rightarrow> create_env \<Rightarrow> body \<Rightarrow> upload option \<Rightarrow> world
    \<Rightarrow> response \<times> world" where
  "register L development e req_body req_file w =
     (let processedBody = preprocessFormData req_body
      in case registrationSchema_validate L processedBody of
           Inl details \<Rightarrow>
             (\<lparr> statusCode = 400, success = False, message = ''Validation failed'',
                errors = details, user_view = None, storage = None, error_message = None \<rparr>, w)
         | Inr v \<Rightarrow>
             (let userData = userData_of v req_file
              in case createUser L e userData w of
                   (Inr newUser, w') \<Rightarrow>
                     (\<lparr> statusCode = 201, success = True,
                        message = ''User registered successfully'', errors = [],
                        user_view = Some
                          \<lparr> r_id = uid newUser, r_name = name newUser, r_email = email newUser,
                            r_phone = phone newUser, r_createdAt = createdAt newUser,
                            r_profilePhoto =
                              (case profilePhoto newUser of
                                 None \<Rightarrow> None
                               | Some ph \<Rightarrow> Some (filename ph, originalName ph)) \<rparr>,
                        storage = Some (getStorageStatus w'), error_message = None \<rparr>, w')
                 | (Inl (Error msg), w') \<Rightarrow>
                     if includes_str msg ''already exists'' then
                       (\<lparr> statusCode = 409, success = False,
                          message = ''User with this email already exists'', errors = [],
                          user_view = None, storage = None, error_message = None \<rparr>, w')
                     else
                       (\<lparr> statusCode = 500, success = False,
                          message = ''Internal server error'', errors = [],
                          user_view = None, storage = None,
                          error_message = (if development then Some msg else None) \<rparr>, w')))"

section \<open>The migration tool\<close>

text \<open>What one run takes from outside: whether \<open>mongoose.connect\<close> succeeds and, for the
  record at each position of the file, the environment of its save, whether the server
  fails to answer its query, and the reading of the clock.\<close>

record migrate_env =
  connect_succeeds :: bool
  save_env_at :: "nat \<Rightarrow> save_env"
  find_error_at :: "nat \<Rightarrow> bool"
  now_at :: "nat \<Rightarrow> string"

datatype outcome = Skipped | Migrated | Errored

text \<open>The counters of the loop, and the line that the loop logs for each record.\<close>

record counters =
  migratedCount :: nat
  skippedCount :: nat
  errorCount :: nat
  logged :: "outcome list"

record summary =
  migrated :: nat
  skipped :: nat
  errored :: nat
  total_in_file :: nat
  lines :: "outcome list"

definition readUsersFromFile :: "world \<Rightarrow> user list" where
  "readUsersFromFile w = (case readJSON (usersFile w) of Inl err \<Rightarrow> [] | Inr users \<Rightarrow> users)"

text \<open>\<open>x ? new Date(x) : d\<close> on a stored date.\<close>

definition date_or :: "lib \<Rightarrow> string option \<Rightarrow> string option \<Rightarrow> string option" where
  "date_or L x d =
     (case x of
        None \<Rightarrow> d
      | Some s \<Rightarrow> if s = [] then d else new_Date L (JStr s))"

text \<open>The object given to \<open>new User\<close> for a record of the file.\<close>

definition mongoUser_of :: "lib \<Rightarrow> string \<Rightarrow> user \<Rightarrow> user" where
  "mongoUser_of L now fileUser =
     \<lparr> uid = None,
       name = name fileUser,
       email = email fileUser,
       password = password fileUser,
       phone = phone fileUser,
       dateOfBirth = date_or L (dateOfBirth fileUser) None,
       gender = gender fileUser,
       address = address fileUser,
       city = city fileUser,
       state = state fileUser,
       postalCode = postalCode fileUser,
       country = country fileUser,
       occupation = occupation fileUser,
       company = company fileUser,
       website = website fileUser,
       emergencyContactName = emergencyContactName fileUser,
       emergencyContactPhone = emergencyContactPhone fileUser,
       profilePhoto = profilePhoto fileUser,
       newsletterSubscription = newsletterSubscription fileUser,
       termsAccepted = termsAccepted fileUser,
       status = (if status fileUser = [] then ''active'' else status fileUser),
       emailVerified = emailVerified fileUser,
       createdAt = date_or L (createdAt fileUser) (Some now),
       updatedAt = date_or L (updatedAt fileUser) (Some now),
       lastLogin = date_or L (lastLogin fileUser) None,
       loginCount = loginCount fileUser \<rparr>"

text \<open>The body of the loop for one record: the outcome and the collection afterwards.\<close>

definition migrate_record :: "lib \<Rightarrow> bool \<Rightarrow> save_env \<Rightarrow> string \<Rightarrow> user \<Rightarrow> user list
    \<Rightarrow> outcome \<times> user list" where
  "migrate_record L find_fails se now fileUser coll =
     (case User_findOne find_fails (email fileUser) coll of
        Inl err \<Rightarrow> (Errored, coll)
      | Inr (Some existingUser) \<Rightarrow> (Skipped, coll)
      | Inr None \<Rightarrow>
          (let mongoUser = User_new (new_ObjectId se) (mongoUser_of L now fileUser)
           in case User_save L se mongoUser coll of
                Inl err \<Rightarrow> (Errored, coll)
              | Inr coll' \<Rightarrow> (Migrated, coll')))"

definition count_outcome :: "outcome \<Rightarrow> counters \<Rightarrow> counters" where
  "count_outcome out c =
     (case out of
        Skipped \<Rightarrow> c\<lparr> skippedCount := skippedCount c + 1, logged := logged c @ [Skipped] \<rparr>
      | Migrated \<Rightarrow> c\<lparr> migratedCount := migratedCount c + 1, logged := logged c @ [Migrated] \<rparr>
      | Errored \<Rightarrow> c\<lparr> errorCount := errorCount c + 1, logged := logged c @ [Errored] \<rparr>)"

fun migrate_loop :: "lib \<Rightarrow> migrate_env \<Rightarrow> nat \<Rightarrow> user list \<Rightarrow> counters \<Rightarrow> user list
    \<Rightarrow> counters \<times> user list" where
  "migrate_loop L e i [] c coll = (c, coll)"
| "migrate_loop L e i (fileUser # rest) c coll =
     (case migrate_record L (find_error_at e i) (save_env_at e i) (now_at e i) fileUser coll of
        (out, coll') \<Rightarrow> migrate_loop L e (Suc i) rest (count_outcome out c) coll')"

text \<open>\<open>migrateUsers\<close>: the summary that the run prints (none when it is aborted or finds
  no users) and the world afterwards.\<close>

definition migrateUsers :: "lib \<Rightarrow> migrate_env \<Rightarrow> world \<Rightarrow> summary option \<times> world" where
  "migrateUsers L e w =
     (if \<not> connect_succeeds e then (None, w)
      else
        let fileUsers = readUsersFromFile w
        in if length fileUsers = 0 then (None, w)
           else
             (case migrate_loop L e 0 fileUsers
                     \<lparr> migratedCount = 0, skippedCount = 0, errorCount = 0, logged = [] \<rparr>
                     (mongo w) of
                (c, coll) \<Rightarrow>
                  (Some \<lparr> migrated = migratedCount c, skipped = skippedCount c,
                          errored = errorCount c, total_in_file = length fileUsers,
                          lines = logged c \<rparr>,
                   w\<lparr> mongo := coll \<rparr>)))"

record sync_env =
  sync_connect_succeeds :: bool
  find_error :: bool
  sync_now :: string

text \<open>The conversion of one document to the format of the file; \<open>user._id.toString()\<close>
  throws on a document without \<open>_id\<close>.\<close>

definition convertedUser :: "string \<Rightarrow> user \<Rightarrow> error + user" where
  "convertedUser now user =
     (case uid user of
        None \<Rightarrow> Inl (Error ''Cannot read properties of undefined (reading toString)'')
      | Some i \<Rightarrow>
          Inr \<lparr> uid = Some (IdString (id_text i)),
                name = name user,
                email = email user,
                password = password user,
                phone = phone user,
                dateOfBirth = (case dateOfBirth user of None \<Rightarrow> None | Some d \<Rightarrow> Some d),
                gender = gender user,
                address = address user,
                city = city user,
                state = state user,
                postalCode = postalCode user,
                country = country user,
                occupation = occupation user,
                company = company user,
                website = website user,
                emergencyContactName = emergencyContactName user,
                emergencyContactPhone = emergencyContactPhone user,
                profilePhoto = profilePhoto user,
                newsletterSubscription = newsletterSubscription user,
                termsAccepted = termsAccepted user,
                status = status user,
                emailVerified = emailVerified user,
                createdAt = (case createdAt user of None \<Rightarrow> Some now | Some d \<Rightarrow> Some d),
                updatedAt = (case updatedAt user of None \<Rightarrow> Some now | Some d \<Rightarrow> Some d),
                lastLogin = (case lastLogin user of None \<Rightarrow> None | Some d \<Rightarrow> Some d),
                loginCount = loginCount user \<rparr>)"

text \<open>\<open>mongoUsers.map(...)\<close>: the first conversion that throws ends the map.\<close>

fun convertedUsers :: "string \<Rightarrow> user list \<Rightarrow> error + user list" where
  "convertedUsers now [] = Inr []"
| "convertedUsers now (user # rest) =
     (case convertedUser now user of
        Inl err \<Rightarrow> Inl err
      | Inr u \<Rightarrow> (case convertedUsers now rest of Inl err \<Rightarrow> Inl err | Inr us \<Rightarrow> Inr (u # us)))"

definition User_find :: "bool \<Rightarrow> user list \<Rightarrow> error + user list" where
  "User_find failing coll = (if failing then Inl (Error ''MongoError: operation failed'') else Inr coll)"

definition syncFromMongoToFile :: "sync_env \<Rightarrow> world \<Rightarrow> world" where
  "syncFromMongoToFile e w =
     (if \<not> sync_connect_succeeds e then w
      else
        (case User_find (find_error e) (mongo w) of
           Inl err \<Rightarrow> w
         | Inr mongoUsers \<Rightarrow>
             (let fileUsers = readUsersFromFile w
              in case convertedUsers (sync_now e) mongoUsers of
                   Inl err \<Rightarrow> w
                 | Inr converted \<Rightarrow> w\<lparr> usersFile := Parsed converted \<rparr>)))"

section \<open>Notions used in the statements\<close>

text \<open>The constructor of \<open>DualStorage\<close> sets the flag to false.\<close>

definition DualStorage_new :: "world \<Rightarrow> world" where
  "DualStorage_new w = w\<lparr> mongoConnected := False \<rparr>"

text \<open>An address is taken when some record of the file has it, compared without regard to
  case.\<close>

definition emailTaken :: "user list \<Rightarrow> string \<Rightarrow> bool" where
  "emailTaken users e = (toLowerCase e \<in> set (map (\<lambda>u. toLowerCase (email u)) users))"

definition emails_lowercase :: "user list \<Rightarrow> bool" where
  "emails_lowercase users = list_all (\<lambda>u. email u = toLowerCase (email u)) users"

text \<open>
  The worlds that the coordinator reaches: it is constructed and initialised on a data
  directory without the two files, and then \<open>createUser\<close> is called any number of times.
  The number counts the calls that succeeded.
\<close>

inductive reachable :: "lib \<Rightarrow> nat \<Rightarrow> world \<Rightarrow> bool" for L :: lib where
  started: "usersFile w0 = Missing \<Longrightarrow> statsFile w0 = Missing
      \<Longrightarrow> reachable L 0 (init ie (DualStorage_new w0))"
| created: "reachable L n w \<Longrightarrow> createUser L e ud w = (Inr r, w') \<Longrightarrow> reachable L (Suc n) w'"
| refused: "reachable L n w \<Longrightarrow> createUser L e ud w = (Inl err, w') \<Longrightarrow> reachable L n w'"

definition store_ok :: "nat \<Rightarrow> world \<Rightarrow> bool" where
  "store_ok n w =
     (\<exists>users st. usersFile w = Parsed users \<and> statsFile w = Parsed st
        \<and> totalUsers st = length users \<and> length users = n
        \<and> emails_lowercase users \<and> distinct (map email users))"

text \<open>For the migration: the collection holds the address of a record as the query of the
  loop looks for it; the schema accepts the document built from a record; the driver
  throws on no query and no insert of a run; the counters agree with the logged lines.\<close>

definition has_email :: "string \<Rightarrow> user list \<Rightarrow> bool" where
  "has_email q coll = (trim (toLowerCase q) \<in> set (map email coll))"

definition acceptable :: "lib \<Rightarrow> user \<Rightarrow> bool" where
  "acceptable L fileUser = schema_valid L (User_new [] (mongoUser_of L [] fileUser))"

definition no_faults :: "migrate_env \<Rightarrow> bool" where
  "no_faults e = (\<forall>i. \<not> find_error_at e i \<and> \<not> db_error (save_env_at e i))"

definition counted :: "counters \<Rightarrow> bool" where
  "counted c =
     (migratedCount c = count_list (logged c) Migrated
      \<and> skippedCount c = count_list (logged c) Skipped
      \<and> errorCount c = count_list (logged c) Errored)"

text \<open>The serialized form of a document of the collection, as the specification words it:
  the same fields, the identifier as its text, and a missing timestamp filled with the
  time of the run.\<close>

definition serialized :: "string \<Rightarrow> user \<Rightarrow> user" where
  "serialized now d = d
     \<lparr> uid := map_option (\<lambda>i. IdString (id_text i)) (uid d),
       createdAt := Some (case createdAt d of None \<Rightarrow> now | Some t \<Rightarrow> t),
       updatedAt := Some (case updatedAt d of None \<Rightarrow> now | Some t \<Rightarrow> t) \<rparr>"

definition identifier_of :: "user \<Rightarrow> string option" where
  "identifier_of u = map_option id_text (uid u)"

section \<open>Example inputs\<close>

text \<open>An instance of the library functions, with a hash that only prefixes the salt.\<close>

definition example_lib :: lib where
  "example_lib =
     \<lparr> bcrypt_hash = (\<lambda>p salt. salt @ ''#'' @ p),
       new_Date = (\<lambda>v. case v of JStr s \<Rightarrow> Some s | JDate s \<Rightarrow> Some s | _ \<Rightarrow> None),
       in_past = (\<lambda>d. True),
       email_regex = (\<lambda>s. CHR ''@'' \<in> set s),
       joi_email = (\<lambda>s. CHR ''@'' \<in> set s),
       joi_iso_date = (\<lambda>s. False),
       URL_ok = (\<lambda>s. True) \<rparr>"

definition example_save_env :: save_env where
  "example_save_env =
     \<lparr> hook_salt = ''salt-b'', new_ObjectId = ''65e1a0000000000000000001'', db_error = False \<rparr>"

definition example_env :: create_env where
  "example_env =
     \<lparr> uuidv4 = ''3b241101-e2bb-4255-8caf-4136c566a962'',
       genSalt = ''salt-a'',
       now_createdAt = ''2024-03-01T10:00:00.000Z'',
       now_updatedAt = ''2024-03-01T10:00:00.000Z'',
       now_stats = ''2024-03-01T10:00:00.001Z'',
       save_environment = example_save_env \<rparr>"

definition example_env_down :: create_env where
  "example_env_down = example_env\<lparr> save_environment := example_save_env\<lparr> db_error := True \<rparr> \<rparr>"

definition jane :: userData where
  "jane =
     \<lparr> userData.name = ''Jane Doe'',
       userData.email = ''JANE@X.COM'',
       userData.password = ''secret1'',
       userData.phone = ''+15551234'',
       userData.dateOfBirth = JUndefined,
       userData.gender = None,
       userData.address = None,
       userData.city = None,
       userData.state = None,
       userData.postalCode = None,
       userData.country = None,
       userData.occupation = None,
       userData.company = None,
       userData.website = None,
       userData.emergencyContactName = None,
       userData.emergencyContactPhone = None,
       userData.profilePhoto = None,
       userData.newsletterSubscription = JUndefined,
       userData.termsAccepted = JBool True \<rparr>"

definition jane_body :: "jsval \<Rightarrow> body" where
  "jane_body terms =
     \<lparr> body.name = JStr ''Jane Doe'',
       body.email = JStr ''JANE@X.COM'',
       body.password = JStr ''secret1'',
       body.phone = JStr ''+15551234'',
       body.date_of_birth = JUndefined,
       body.gender = JUndefined,
       body.address = JUndefined,
       body.city = JUndefined,
       body.state = JUndefined,
       body.postal_code = JUndefined,
       body.country = JUndefined,
       body.occupation = JUndefined,
       body.company = JUndefined,
       body.website = JUndefined,
       body.emergency_contact_name = JUndefined,
       body.emergency_contact_phone = JUndefined,
       body.newsletter_subscription = JUndefined,
       body.terms_accepted = terms \<rparr>"

definition jane_value :: "bool \<Rightarrow> joi_value" where
  "jane_value terms =
     \<lparr> joi_value.name = ''Jane Doe'',
       joi_value.email = ''jane@x.com'',
       joi_value.password = ''secret1'',
       joi_value.phone = ''+15551234'',
       joi_value.date_of_birth = JUndefined,
       joi_value.gender = None,
       joi_value.address = None,
       joi_value.city = None,
       joi_value.state = None,
       joi_value.postal_code = None,
       joi_value.country = None,
       joi_value.occupation = None,
       joi_value.company = None,
       joi_value.website = None,
       joi_value.emergency_contact_name = None,
       joi_value.emergency_contact_phone = None,
       joi_value.newsletter_subscription = JUndefined,
       joi_value.terms_accepted = JBool terms \<rparr>"

definition fresh_world :: world where
  "fresh_world =
     \<lparr> usersFile = Missing, statsFile = Missing, mongoConnected = False,
       mongoose_loaded = True, User_loaded = True, mongo = [] \<rparr>"

definition example_init_env :: "bool \<Rightarrow> init_env" where
  "example_init_env up =
     \<lparr> readyState = 0, connect_ok = up, init_now = ''2024-03-01T09:00:00.000Z'' \<rparr>"

definition world_dual :: world where
  "world_dual = init (example_init_env True) (DualStorage_new fresh_world)"

definition world_file_only :: world where
  "world_file_only = init (example_init_env False) (DualStorage_new fresh_world)"

definition world_jane :: world where
  "world_jane = snd (createUser example_lib example_env jane world_file_only)"

definition world_jane_dual :: world where
  "world_jane_dual = snd (createUser example_lib example_env jane world_dual)"

definition example_migrate_env :: migrate_env where
  "example_migrate_env =
     \<lparr> connect_succeeds = True,
       save_env_at = (\<lambda>i. example_save_env),
       find_error_at = (\<lambda>i. False),
       now_at = (\<lambda>i. ''2024-03-02T08:00:00.000Z'') \<rparr>"

definition example_record :: "string \<Rightarrow> string \<Rightarrow> bool \<Rightarrow> user" where
  "example_record i e terms =
     \<lparr> uid = Some (IdString i), name = ''Jane Doe'', email = e,
       password = Some ''salt-a#secret1'', phone = ''+15551234'', dateOfBirth = None,
       gender = None, address = None, city = None, state = None, postalCode = None,
       country = None, occupation = None, company = None, website = None,
       emergencyContactName = None, emergencyContactPhone = None, profilePhoto = None,
       newsletterSubscription = False, termsAccepted = terms, status = ''active'',
       emailVerified = False, createdAt = Some ''2024-03-01T10:00:00.000Z'',
       updatedAt = Some ''2024-03-01T10:00:00.000Z'', lastLogin = None, loginCount = 0 \<rparr>"

definition example_doc :: "string \<Rightarrow> string \<Rightarrow> user" where
  "example_doc i e = (example_record i e True)\<lparr> uid := Some (ObjectId i) \<rparr>"

definition migration_world :: world where
  "migration_world =
     \<lparr> usersFile = Parsed [example_record ''id-a'' ''a@x.com'' True,
                            example_record ''id-c'' ''c@x.com'' False],
       statsFile = Missing, mongoConnected = False, mongoose_loaded = True,
       User_loaded = True, mongo = [] \<rparr>"

definition example_sync_env :: sync_env where
  "example_sync_env =
     \<lparr> sync_connect_succeeds = True, find_error = False,
       sync_now = ''2024-03-02T08:00:00.000Z'' \<rparr>"

definition sync_world :: world where
  "sync_world =
     \<lparr> usersFile = Parsed [example_record ''65e1a0000000000000000001'' ''a@x.com'' True,
                            example_record ''id-c'' ''c@x.com'' True],
       statsFile = Missing, mongoConnected = False, mongoose_loaded = True,
       User_loaded = True,
       mongo = [example_doc ''65e1a0000000000000000001'' ''a@x.com'',
                example_doc ''65e1a0000000000000000002'' ''b@x.com''] \<rparr>"

section \<open>Strings and the duplicate check\<close>

lemma toLowerCase_char_idem: "toLowerCase_char (toLowerCase_char c) = toLowerCase_char c"
  by (simp add: toLowerCase_char_def)

lemma toLowerCase_idem: "toLowerCase (toLowerCase s) = toLowerCase s"
  by (simp add: toLowerCase_def toLowerCase_char_idem)

lemma find_None_iff_notin: "(find P xs = None) = (\<not> (\<exists>x\<in>set xs. P x))"
  by (induction xs) auto

lemma find_email_iff: "(find (\<lambda>d. email d = q) coll = None) = (q \<notin> set (map email coll))"
  by (induction coll) auto

lemma lowercase_map:
  "emails_lowercase users \<Longrightarrow> map (\<lambda>u. toLowerCase (email u)) users = map email users"
  by (induction users) (auto simp: emails_lowercase_def)

text \<open>On a file whose addresses are lowercase, the equality test of \<open>saveToFile\<close> finds a
  record exactly when the address is taken.\<close>

lemma lowercase_find:
  assumes "emails_lowercase users"
  shows "(find (\<lambda>u. email u = toLowerCase e) users \<noteq> None) = emailTaken users e"
  unfolding emailTaken_def lowercase_map [OF assms] find_None_iff_notin by force

lemma fresh_find:
  assumes "\<not> emailTaken users e"
  shows "find (\<lambda>u. email u = toLowerCase e) users = None"
proof -
  have "\<not> (\<exists>u\<in>set users. email u = toLowerCase e)"
  proof
    assume "\<exists>u\<in>set users. email u = toLowerCase e"
    then obtain u where u: "u \<in> set users" "email u = toLowerCase e" by blast
    then have "toLowerCase (email u) = toLowerCase e" by (simp add: toLowerCase_idem)
    with u assms show False by (force simp: emailTaken_def)
  qed
  then show ?thesis by (simp add: find_None_iff_notin)
qed

lemma not_taken_nil: "\<not> emailTaken [] x"
  by (simp add: emailTaken_def)

lemma lowercase_distinct:
  assumes "emails_lowercase users" and "distinct (map email users)"
  shows "distinct (map (\<lambda>u. toLowerCase (email u)) users)"
  using assms(2) by (simp add: lowercase_map [OF assms(1)])

section \<open>What \<open>createUser\<close> does to the stores\<close>

lemma newUser_of_sel [simp]:
  "email (newUser_of L e ud) = toLowerCase (userData.email ud)"
  "password (newUser_of L e ud) = Some (bcrypt_hash L (userData.password ud) (genSalt e))"
  "uid (newUser_of L e ud) = Some (IdString (uuidv4 e))"
  by (simp_all add: newUser_of_def Let_def)

lemma mongo_doc_sel [simp]:
  "password (pre_save L s (User_new oid (u\<lparr> uid := None \<rparr>)))
     = map_option (\<lambda>p. bcrypt_hash L p s) (password u)"
  "uid (pre_save L s (User_new oid (u\<lparr> uid := None \<rparr>))) = Some (ObjectId oid)"
  "email (pre_save L s (User_new oid (u\<lparr> uid := None \<rparr>))) = trim (toLowerCase (email u))"
  by (simp_all add: pre_save_def User_new_def)

lemma saveToMongo_files [simp]:
  "usersFile (saveToMongo L se u w) = usersFile w"
  "statsFile (saveToMongo L se u w) = statsFile w"
  "mongoConnected (saveToMongo L se u w) = mongoConnected w"
  by (simp_all add: saveToMongo_def Let_def split: sum.splits)

lemma updateStats_users [simp]:
  "usersFile (updateStats now w) = usersFile w"
  "mongoConnected (updateStats now w) = mongoConnected w"
  "mongo (updateStats now w) = mongo w"
  by (simp_all add: updateStats_def Let_def split: sum.splits)

lemma updateStats_total:
  "usersFile w = Parsed users \<Longrightarrow> statsFile w = Parsed st
    \<Longrightarrow> \<exists>st'. statsFile (updateStats now w) = Parsed st' \<and> totalUsers st' = length users"
  by (simp add: updateStats_def readJSON_def Let_def)

lemma createUser_refused: "createUser L e ud w = (Inl err, w') \<Longrightarrow> w' = w"
  by (auto simp: createUser_def saveToFile_def Let_def split: sum.splits option.splits prod.splits)

lemma createUser_created:
  assumes "createUser L e ud w = (Inr r, w')"
  shows "\<exists>users. usersFile w = Parsed users
           \<and> find (\<lambda>u. email u = toLowerCase (userData.email ud)) users = None
           \<and> usersFile w' = Parsed (users @ [newUser_of L e ud])
           \<and> statsFile w' = statsFile (updateStats (now_stats e)
                 (w\<lparr> usersFile := Parsed (users @ [newUser_of L e ud]) \<rparr>))
           \<and> r = (newUser_of L e ud)\<lparr> password := None \<rparr>"
  using assms
  by (auto simp: createUser_def saveToFile_def readJSON_def Let_def updateStats_def saveToMongo_def
      split: sum.splits option.splits prod.splits json_file.splits if_splits)

lemma createUser_fresh:
  assumes uf: "usersFile w = Parsed users"
    and fresh: "\<not> emailTaken users (userData.email ud)"
  shows "createUser L e ud w =
     (Inr ((newUser_of L e ud)\<lparr> password := None \<rparr>),
      updateStats (now_stats e)
        (let w1 = w\<lparr> usersFile := Parsed (users @ [newUser_of L e ud]) \<rparr>
         in if mongoConnected w \<and> User_loaded w
            then saveToMongo L (save_environment e) (newUser_of L e ud) w1 else w1))"
  using fresh_find [OF fresh]
  by (simp add: createUser_def saveToFile_def readJSON_def uf Let_def)

lemma User_save_Inr:
  "User_save L se d coll = Inr coll' \<Longrightarrow> coll' = coll @ [pre_save L (hook_salt se) d]"
  by (simp add: User_save_def Let_def split: if_splits)

text \<open>A call that changed the collection wrote the new record to both stores.\<close>

lemma dual_write:
  assumes uf: "usersFile w = Parsed users"
    and fresh: "\<not> emailTaken users (userData.email ud)"
    and run: "createUser L e ud w = (r, w')"
    and wrote: "mongo w' \<noteq> mongo w"
  shows "usersFile w' = Parsed (users @ [newUser_of L e ud])
       \<and> mongo w' = mongo w @ [pre_save L (hook_salt (save_environment e))
            (User_new (new_ObjectId (save_environment e)) ((newUser_of L e ud)\<lparr> uid := None \<rparr>))]"
proof -
  let ?w1 = "w\<lparr> usersFile := Parsed (users @ [newUser_of L e ud]) \<rparr>"
  let ?d = "User_new (new_ObjectId (save_environment e)) ((newUser_of L e ud)\<lparr> uid := None \<rparr>)"
  from run have w': "w' = updateStats (now_stats e)
        (if mongoConnected w \<and> User_loaded w
         then saveToMongo L (save_environment e) (newUser_of L e ud) ?w1 else ?w1)"
    unfolding createUser_fresh [OF uf fresh] by (simp add: Let_def)
  then have uf': "usersFile w' = Parsed (users @ [newUser_of L e ud])" by simp
  from w' wrote have conn: "mongoConnected w \<and> User_loaded w"
    by (auto split: if_splits)
  with w' have m: "mongo w' = mongo (saveToMongo L (save_environment e) (newUser_of L e ud) ?w1)"
    by simp
  show ?thesis
  proof (cases "User_save L (save_environment e) ?d (mongo w)")
    case (Inl err)
    with m wrote show ?thesis by (simp add: saveToMongo_def Let_def)
  next
    case (Inr coll)
    with m User_save_Inr [OF Inr] uf' show ?thesis by (simp add: saveToMongo_def Let_def)
  qed
qed

section \<open>The invariant of the reachable worlds\<close>

lemma init_store_ok:
  "usersFile w0 = Missing \<Longrightarrow> statsFile w0 = Missing
     \<Longrightarrow> store_ok 0 (init ie (DualStorage_new w0))"
  by (simp add: store_ok_def init_def initFileStorage_def initMongoStorage_def DualStorage_new_def
      Let_def emails_lowercase_def)

lemma created_store_ok:
  assumes ok: "store_ok n w" and c: "createUser L e ud w = (Inr r, w')"
  shows "store_ok (Suc n) w'"
proof -
  from ok obtain users st where w: "usersFile w = Parsed users" "statsFile w = Parsed st"
    "length users = n" "emails_lowercase users" "distinct (map email users)"
    by (auto simp: store_ok_def)
  let ?new = "newUser_of L e ud"
  from createUser_created [OF c] w
  have nf: "find (\<lambda>u. email u = toLowerCase (userData.email ud)) users = None"
    and uf: "usersFile w' = Parsed (users @ [?new])"
    and sf: "statsFile w' = statsFile (updateStats (now_stats e)
               (w\<lparr> usersFile := Parsed (users @ [?new]) \<rparr>))"
    by auto
  from updateStats_total [of "w\<lparr> usersFile := Parsed (users @ [?new]) \<rparr>" "users @ [?new]" st
      "now_stats e"] w
  obtain st' where st': "statsFile w' = Parsed st'" "totalUsers st' = length (users @ [?new])"
    by (auto simp: sf)
  have low: "emails_lowercase (users @ [?new])"
    using w(4) by (simp add: emails_lowercase_def toLowerCase_idem)
  have "toLowerCase (userData.email ud) \<notin> set (map email users)"
    using nf by (auto simp: find_None_iff_notin)
  then have dist: "distinct (map email (users @ [?new]))"
    using w(5) by simp
  show ?thesis
    unfolding store_ok_def using uf st' low dist w(3) by auto
qed

lemma reachable_store_ok: "reachable L n w \<Longrightarrow> store_ok n w"
proof (induction rule: reachable.induct)
  case (started w0 ie)
  then show ?case by (rule init_store_ok)
next
  case (created n w e ud r w')
  then show ?case by (blast intro: created_store_ok)
next
  case (refused n w e ud err w')
  then show ?case using createUser_refused by blast
qed

section \<open>The migration loop\<close>

lemma schema_valid_acceptable:
  "schema_valid L (User_new oid (mongoUser_of L now fu)) = acceptable L fu"
  by (simp add: acceptable_def schema_valid_def User_new_def mongoUser_of_def)

lemma email_saved [simp]:
  "email (pre_save L salt (User_new oid (mongoUser_of L now fu))) = trim (toLowerCase (email fu))"
  by (simp add: pre_save_def User_new_def mongoUser_of_def)

text \<open>One record when the server answers: skipped when its address is in the collection,
  an error when the schema rejects it, inserted otherwise.\<close>

lemma migrate_record_no_fault:
  assumes "\<not> db_error se"
  shows "migrate_record L False se now fu coll =
     (if has_email (email fu) coll then (Skipped, coll)
      else if \<not> acceptable L fu then (Errored, coll)
      else (Migrated, coll @ [pre_save L (hook_salt se)
              (User_new (new_ObjectId se) (mongoUser_of L now fu))]))"
proof (cases "has_email (email fu) coll")
  case True
  then have "find (\<lambda>d. email d = trim (toLowerCase (email fu))) coll \<noteq> None"
    by (simp add: find_email_iff has_email_def)
  then show ?thesis using True
    by (auto simp: migrate_record_def User_findOne_def)
next
  case False
  then have f: "find (\<lambda>d. email d = trim (toLowerCase (email fu))) coll = None"
    by (simp add: find_email_iff has_email_def)
  from False have nd: "trim (toLowerCase (email fu)) \<notin> set (map email coll)"
    by (simp add: has_email_def)
  show ?thesis using False assms nd
    by (simp add: migrate_record_def User_findOne_def f User_save_def Let_def
        schema_valid_acceptable del: set_map)
qed

lemma has_email_append: "has_email q coll \<Longrightarrow> has_email q (coll @ new)"
  by (simp add: has_email_def)

lemma has_email_self:
  "has_email (email fu) (coll @ [pre_save L salt (User_new oid (mongoUser_of L now fu))])"
  by (simp add: has_email_def)

lemma logged_count_outcome [simp]: "logged (count_outcome out c) = logged c @ [out]"
  by (cases out) (simp_all add: count_outcome_def)

text \<open>After a run without faults, every record has its address in the collection or is
  not acceptable, and a record that was not an error has its address there.\<close>

lemma migrate_loop_first:
  assumes "no_faults e" and "migrate_loop L e i fs c coll = (c', coll')"
  shows "\<exists>os new. logged c' = logged c @ os \<and> coll' = coll @ new
           \<and> list_all2 (\<lambda>fu out. (out \<noteq> Errored \<longrightarrow> has_email (email fu) coll')
                \<and> (has_email (email fu) coll' \<or> \<not> acceptable L fu)) fs os"
  using assms(2)
proof (induction fs arbitrary: i c coll)
  case Nil
  then show ?case by simp
next
  case (Cons fu rest)
  from assms(1) have nf: "\<not> find_error_at e i" "\<not> db_error (save_env_at e i)"
    by (auto simp: no_faults_def)
  obtain out coll1 where
    step: "migrate_record L False (save_env_at e i) (now_at e i) fu coll = (out, coll1)"
    by (cases "migrate_record L False (save_env_at e i) (now_at e i) fu coll") auto
  with Cons.prems nf
  have rest: "migrate_loop L e (Suc i) rest (count_outcome out c) coll1 = (c', coll')"
    by simp
  from Cons.IH [OF rest] obtain os new where
    ih: "logged c' = logged (count_outcome out c) @ os" "coll' = coll1 @ new"
      "list_all2 (\<lambda>fu out. (out \<noteq> Errored \<longrightarrow> has_email (email fu) coll')
                \<and> (has_email (email fu) coll' \<or> \<not> acceptable L fu)) rest os"
    by blast
  from step have hd: "(out \<noteq> Errored \<longrightarrow> has_email (email fu) coll1)
      \<and> (has_email (email fu) coll1 \<or> \<not> acceptable L fu) \<and> (\<exists>n1. coll1 = coll @ n1)"
    unfolding migrate_record_no_fault [OF nf(2)]
    by (auto split: if_splits simp: has_email_self)
  then obtain n1 where n1: "coll1 = coll @ n1" by blast
  have hd': "(out \<noteq> Errored \<longrightarrow> has_email (email fu) coll')
      \<and> (has_email (email fu) coll' \<or> \<not> acceptable L fu)"
    using hd ih(2) has_email_append by blast
  show ?case
    apply (rule exI [of _ "out # os"])
    apply (rule exI [of _ "n1 @ new"])
    using ih hd' n1 by simp
qed

text \<open>A run without faults from such a collection inserts nothing.\<close>

lemma migrate_loop_second:
  assumes "no_faults e"
    and "\<forall>fu\<in>set fs. has_email (email fu) coll \<or> \<not> acceptable L fu"
  shows "\<exists>c'. migrate_loop L e i fs c coll = (c', coll)
           \<and> migratedCount c' = migratedCount c
           \<and> logged c' = logged c
               @ map (\<lambda>fu. if has_email (email fu) coll then Skipped else Errored) fs"
  using assms(2)
proof (induction fs arbitrary: i c)
  case Nil
  then show ?case by simp
next
  case (Cons fu rest)
  from assms(1) have nf: "\<not> find_error_at e i" "\<not> db_error (save_env_at e i)"
    by (auto simp: no_faults_def)
  let ?out = "if has_email (email fu) coll then Skipped else Errored"
  have step: "migrate_record L False (save_env_at e i) (now_at e i) fu coll = (?out, coll)"
    unfolding migrate_record_no_fault [OF nf(2)] using Cons.prems by auto
  from Cons.prems have "\<forall>fu\<in>set rest. has_email (email fu) coll \<or> \<not> acceptable L fu"
    by simp
  from Cons.IH [OF this, of "Suc i" "count_outcome ?out c"] obtain c' where
    ih: "migrate_loop L e (Suc i) rest (count_outcome ?out c) coll = (c', coll)"
      "migratedCount c' = migratedCount (count_outcome ?out c)"
      "logged c' = logged (count_outcome ?out c)
         @ map (\<lambda>fu. if has_email (email fu) coll then Skipped else Errored) rest"
    by blast
  have m: "migratedCount (count_outcome ?out c) = migratedCount c"
    by (simp add: count_outcome_def)
  show ?case
    using ih m nf step by simp
qed

lemma counted_count_outcome: "counted c \<Longrightarrow> counted (count_outcome out c)"
  by (cases out) (simp_all add: counted_def count_outcome_def)

lemma migrate_loop_counted:
  "counted c \<Longrightarrow> migrate_loop L e i fs c coll = (c', coll') \<Longrightarrow> counted c'"
proof (induction fs arbitrary: i c coll)
  case Nil
  then show ?case by simp
next
  case (Cons fu rest)
  then show ?case
    by (auto split: prod.splits intro: counted_count_outcome)
qed

lemma readUsersFromFile_mongo [simp]:
  "readUsersFromFile (w\<lparr> mongo := coll \<rparr>) = readUsersFromFile w"
  by (simp add: readUsersFromFile_def)

lemma migrateUsers_empty:
  "readUsersFromFile w = [] \<Longrightarrow> migrateUsers L e w = (None, w)"
  by (simp add: migrateUsers_def Let_def)

lemma migrateUsers_run:
  assumes "connect_succeeds e" and "readUsersFromFile w \<noteq> []"
    and "migrate_loop L e 0 (readUsersFromFile w)
           \<lparr> migratedCount = 0, skippedCount = 0, errorCount = 0, logged = [] \<rparr> (mongo w)
         = (c, coll)"
  shows "migrateUsers L e w =
     (Some \<lparr> migrated = migratedCount c, skipped = skippedCount c, errored = errorCount c,
             total_in_file = length (readUsersFromFile w), lines = logged c \<rparr>,
      w\<lparr> mongo := coll \<rparr>)"
  using assms by (simp add: migrateUsers_def Let_def)

section \<open>The conversion of the collection\<close>

lemma convertedUser_serialized:
  "uid d \<noteq> None \<Longrightarrow> convertedUser now d = Inr (serialized now d)"
  by (cases d) (auto simp: convertedUser_def serialized_def split: option.splits)

lemma convertedUsers_serialized:
  "list_all (\<lambda>d. uid d \<noteq> None) ds \<Longrightarrow> convertedUsers now ds = Inr (map (serialized now) ds)"
  by (induction ds) (simp_all add: convertedUser_serialized)

section \<open>The example inputs, evaluated\<close>

lemma world_dual_eq:
  "world_dual = \<lparr> usersFile = Parsed [],
       statsFile = Parsed \<lparr> totalUsers = 0, totalRegistrations = 0, lastRegistration = None,
                            stats.createdAt = ''2024-03-01T09:00:00.000Z'' \<rparr>,
       mongoConnected = True, mongoose_loaded = True, User_loaded = True, mongo = [] \<rparr>"
  by (simp add: world_dual_def init_def initFileStorage_def initMongoStorage_def
      DualStorage_new_def fresh_world_def example_init_env_def Let_def)

lemma world_file_only_eq:
  "world_file_only = \<lparr> usersFile = Parsed [],
       statsFile = Parsed \<lparr> totalUsers = 0, totalRegistrations = 0, lastRegistration = None,
                            stats.createdAt = ''2024-03-01T09:00:00.000Z'' \<rparr>,
       mongoConnected = False, mongoose_loaded = True, User_loaded = True, mongo = [] \<rparr>"
  by (simp add: world_file_only_def init_def initFileStorage_def initMongoStorage_def
      DualStorage_new_def fresh_world_def example_init_env_def Let_def)

lemma lower_examples:
  "toLowerCase ''JANE@X.COM'' = ''jane@x.com''"
  "toLowerCase ''jane@x.com'' = ''jane@x.com''"
  "toLowerCase ''false'' = ''false''"
  by (simp_all add: toLowerCase_def toLowerCase_char_def)

lemma trim_examples:
  "trim ''Jane Doe'' = ''Jane Doe''"
  "trim ''+15551234'' = ''+15551234''"
  "trim ''jane@x.com'' = ''jane@x.com''"
  by (simp_all add: trim_def isWhiteSpace_def)

lemma trim_lower_examples:
  "trim (toLowerCase ''a@x.com'') = ''a@x.com''"
  "trim (toLowerCase ''c@x.com'') = ''c@x.com''"
  by (simp_all add: trim_def isWhiteSpace_def toLowerCase_def toLowerCase_char_def)

lemma world_jane_users: "usersFile world_jane = Parsed [newUser_of example_lib example_env jane]"
  unfolding world_jane_def
  using createUser_fresh [of world_file_only "[]" jane example_lib example_env]
  by (simp add: world_file_only_eq not_taken_nil Let_def)

lemma jane_newUser:
  "newUser_of example_lib example_env jane =
     \<lparr> uid = Some (IdString ''3b241101-e2bb-4255-8caf-4136c566a962''),
       name = ''Jane Doe'', email = ''jane@x.com'', password = Some ''salt-a#secret1'',
       phone = ''+15551234'', dateOfBirth = None, gender = None, address = None, city = None,
       state = None, postalCode = None, country = None, occupation = None, company = None,
       website = None, emergencyContactName = None, emergencyContactPhone = None,
       profilePhoto = None, newsletterSubscription = False, termsAccepted = True,
       status = ''active'', emailVerified = False,
       createdAt = Some ''2024-03-01T10:00:00.000Z'',
       updatedAt = Some ''2024-03-01T10:00:00.000Z'', lastLogin = None, loginCount = 0 \<rparr>"
  by (simp add: newUser_of_def example_lib_def example_env_def jane_def lower_examples
      or_null_def Let_def)

lemma jane_mongo_doc:
  "User_new ''65e1a0000000000000000001''
       ((newUser_of example_lib example_env jane)\<lparr> uid := None \<rparr>) =
     \<lparr> uid = Some (ObjectId ''65e1a0000000000000000001''),
       name = ''Jane Doe'', email = ''jane@x.com'', password = Some ''salt-a#secret1'',
       phone = ''+15551234'', dateOfBirth = None, gender = None, address = None, city = None,
       state = None, postalCode = None, country = None, occupation = None, company = None,
       website = None, emergencyContactName = None, emergencyContactPhone = None,
       profilePhoto = None, newsletterSubscription = False, termsAccepted = True,
       status = ''active'', emailVerified = False,
       createdAt = Some ''2024-03-01T10:00:00.000Z'',
       updatedAt = Some ''2024-03-01T10:00:00.000Z'', lastLogin = None, loginCount = 0 \<rparr>"
  by (simp add: jane_newUser User_new_def trim_examples lower_examples)

lemma jane_mongo_doc_valid:
  "schema_valid example_lib
     (User_new ''65e1a0000000000000000001''
        ((newUser_of example_lib example_env jane)\<lparr> uid := None \<rparr>))"
  unfolding jane_mongo_doc
  by (simp add: schema_valid_def example_lib_def maxlength_def website_validator_def)

lemma jane_save_ok:
  "User_save example_lib example_save_env
     (User_new ''65e1a0000000000000000001''
        ((newUser_of example_lib example_env jane)\<lparr> uid := None \<rparr>)) []
   = Inr [pre_save example_lib ''salt-b''
       (User_new ''65e1a0000000000000000001''
          ((newUser_of example_lib example_env jane)\<lparr> uid := None \<rparr>))]"
  by (simp add: User_save_def jane_mongo_doc_valid example_save_env_def Let_def)

lemma jane_save_down:
  "User_save example_lib (example_save_env\<lparr> db_error := True \<rparr>)
     (User_new ''65e1a0000000000000000001''
        ((newUser_of example_lib example_env jane)\<lparr> uid := None \<rparr>)) []
   = Inl (Error ''MongoError: operation failed'')"
  by (simp add: User_save_def jane_mongo_doc_valid example_save_env_def Let_def)

lemma world_jane_dual_eq:
  "world_jane_dual = updateStats ''2024-03-01T10:00:00.001Z''
     (world_dual\<lparr> usersFile := Parsed [newUser_of example_lib example_env jane],
        mongo := [pre_save example_lib ''salt-b''
          (User_new ''65e1a0000000000000000001''
             ((newUser_of example_lib example_env jane)\<lparr> uid := None \<rparr>))] \<rparr>)"
proof -
  have uf: "usersFile world_dual = Parsed []" by (simp add: world_dual_eq)
  have c: "mongoConnected world_dual" "User_loaded world_dual" "mongo world_dual = []"
    by (simp_all add: world_dual_eq)
  have e: "save_environment example_env = example_save_env"
    "now_stats example_env = ''2024-03-01T10:00:00.001Z''"
    "new_ObjectId example_save_env = ''65e1a0000000000000000001''"
    by (simp_all add: example_env_def example_save_env_def)
  show ?thesis
    unfolding world_jane_dual_def createUser_fresh [OF uf not_taken_nil]
    by (simp add: Let_def c e saveToMongo_def jane_save_ok)
qed

lemma world_jane_dual_stores:
  "usersFile world_jane_dual = Parsed [newUser_of example_lib example_env jane]"
  "mongo world_jane_dual = [pre_save example_lib ''salt-b''
          (User_new ''65e1a0000000000000000001''
             ((newUser_of example_lib example_env jane)\<lparr> uid := None \<rparr>))]"
  by (simp_all add: world_jane_dual_eq)

lemma jane_body_valid:
  "registrationSchema_validate example_lib (preprocessFormData (jane_body (JBool t)))
     = Inr (jane_value t)"
  by (simp add: registrationSchema_validate_def registrationSchema_value_def
      preprocessFormData_def jane_body_def jane_value_def example_lib_def coerce_flag_def
      empty_to_null_def joi_text_required_def joi_email_rule_def joi_password_def joi_date_def
      joi_gender_def joi_text_optional_def joi_website_def joi_flag_def joi_flag_optional_def
      joi_flag_required_def trim_examples lower_examples Let_def)

lemma jane_body_false_valid:
  "registrationSchema_validate example_lib (preprocessFormData (jane_body (JStr ''false'')))
     = Inr (jane_value False)"
  by (simp add: registrationSchema_validate_def registrationSchema_value_def
      preprocessFormData_def jane_body_def jane_value_def example_lib_def coerce_flag_def
      empty_to_null_def joi_text_required_def joi_email_rule_def joi_password_def joi_date_def
      joi_gender_def joi_text_optional_def joi_website_def joi_flag_def joi_flag_optional_def
      joi_flag_required_def trim_examples lower_examples Let_def)

lemma example_acceptable:
  "acceptable example_lib (example_record i ''a@x.com'' True)"
  "\<not> acceptable example_lib (example_record i e False)"
  by (simp_all add: acceptable_def schema_valid_def User_new_def mongoUser_of_def
      example_record_def example_lib_def date_or_def maxlength_def website_validator_def
      trim_examples trim_lower_examples)

lemma example_no_faults: "no_faults example_migrate_env"
  by (simp add: no_faults_def example_migrate_env_def example_save_env_def)

lemma example_first_run:
  "fst (migrateUsers example_lib example_migrate_env migration_world)
     = Some \<lparr> migrated = 1, skipped = 0, errored = 1, total_in_file = 2,
              lines = [Migrated, Errored] \<rparr>"
proof -
  have nd: "\<not> db_error example_save_env" by (simp add: example_save_env_def)
  have e: "find_error_at example_migrate_env = (\<lambda>i. False)"
    "save_env_at example_migrate_env = (\<lambda>i. example_save_env)"
    "connect_succeeds example_migrate_env"
    by (simp_all add: example_migrate_env_def)
  have em: "email (example_record ''id-a'' ''a@x.com'' True) = ''a@x.com''"
    "email (example_record ''id-c'' ''c@x.com'' False) = ''c@x.com''"
    by (simp_all add: example_record_def)
  show ?thesis
    by (simp add: migrateUsers_def readUsersFromFile_def readJSON_def migration_world_def Let_def
        e migrate_record_no_fault [OF nd] example_acceptable has_email_def em
        trim_lower_examples count_outcome_def)
qed

lemma serialized_example_doc: "serialized now (example_doc i e) = example_record i e True"
  by (simp add: serialized_def example_doc_def example_record_def)

lemma reachable_world_jane: "reachable example_lib 1 world_jane"
proof -
  have s: "reachable example_lib 0 world_file_only"
    unfolding world_file_only_def
    by (rule reachable.started) (simp_all add: fresh_world_def DualStorage_new_def)
  have uf: "usersFile world_file_only = Parsed []" by (simp add: world_file_only_eq)
  have c: "createUser example_lib example_env jane world_file_only
      = (Inr ((newUser_of example_lib example_env jane)\<lparr> password := None \<rparr>), world_jane)"
    unfolding world_jane_def createUser_fresh [OF uf not_taken_nil] by simp
  from reachable.created [OF s c] show ?thesis by simp
qed

section \<open>The claims\<close>

text \<open>
  Claim C1. The file holds records with lowercase addresses (every file that the code
  writes does, see claim C10) and the address of the payload is taken in it, compared
  without regard to case. Then \<open>createUser\<close> throws the error
  \<open>User with this email already exists\<close> and leaves the world as it was, whatever the
  flag of the secondary store is; and the route, for a body whose validated value gives
  this payload, answers with status 409 and changes nothing.
\<close>

theorem createUser_duplicate_email_conflict:
  assumes uf: "usersFile w = Parsed users"
    and inv: "emails_lowercase users"
    and dup: "emailTaken users (userData.email ud)"
  shows "createUser L e ud w = (Inl (Error ''User with this email already exists''), w)
       \<and> (registrationSchema_validate L (preprocessFormData b) = Inr v \<and> userData_of v f = ud
            \<longrightarrow> statusCode (fst (register L dev e b f w)) = 409
              \<and> snd (register L dev e b f w) = w)"
proof -
  from lowercase_find [OF inv] dup
  obtain x where x: "find (\<lambda>u. email u = toLowerCase (userData.email ud)) users = Some x"
    by fastforce
  have c: "createUser L e ud w = (Inl (Error ''User with this email already exists''), w)"
    by (simp add: createUser_def saveToFile_def readJSON_def uf x)
  show ?thesis
    by (simp add: c register_def Let_def)
qed

theorem createUser_duplicate_email_conflict_witness:
  "usersFile world_jane = Parsed [newUser_of example_lib example_env jane]
   \<and> emails_lowercase [newUser_of example_lib example_env jane]
   \<and> emailTaken [newUser_of example_lib example_env jane]
        (userData.email (userData_of (jane_value True) None))
   \<and> createUser example_lib example_env (userData_of (jane_value True) None) world_jane
       = (Inl (Error ''User with this email already exists''), world_jane)
   \<and> statusCode (fst (register example_lib False example_env (jane_body (JBool True)) None
        world_jane)) = 409
   \<and> snd (register example_lib False example_env (jane_body (JBool True)) None world_jane)
       = world_jane"
proof -
  have a: "usersFile world_jane = Parsed [newUser_of example_lib example_env jane]"
    by (rule world_jane_users)
  have b: "emails_lowercase [newUser_of example_lib example_env jane]"
    by (simp add: emails_lowercase_def toLowerCase_idem)
  have c: "emailTaken [newUser_of example_lib example_env jane]
        (userData.email (userData_of (jane_value True) None))"
    by (simp add: emailTaken_def toLowerCase_idem userData_of_def jane_value_def jane_def
        lower_examples)
  have d: "registrationSchema_validate example_lib (preprocessFormData (jane_body (JBool True)))
        = Inr (jane_value True)
      \<and> userData_of (jane_value True) None = userData_of (jane_value True) None"
    by (simp add: jane_body_valid)
  from createUser_duplicate_email_conflict [OF a b c, of example_lib example_env
      "jane_body (JBool True)" "jane_value True" None False] a b c d
  show ?thesis by blast
qed

text \<open>
  Claim C2 does not hold as stated: the flag is written only by the initialisation, and the
  handler of a throwing save only logs. In the example the store was connected at the
  initialisation and the driver throws on the insert: \<open>createUser\<close> returns the record,
  nothing is inserted, and the status view still has mode \<open>dual\<close>, not \<open>file-only\<close>.
\<close>

theorem unreachable_at_write_reported_dual_counterexample:
  "mongoConnected world_dual
   \<and> User_save example_lib (save_environment example_env_down)
        (User_new (new_ObjectId (save_environment example_env_down))
           ((newUser_of example_lib example_env_down jane)\<lparr> uid := None \<rparr>))
        (mongo world_dual) = Inl (Error ''MongoError: operation failed'')
   \<and> fst (createUser example_lib example_env_down jane world_dual)
        = Inr ((newUser_of example_lib example_env_down jane)\<lparr> password := None \<rparr>)
   \<and> mongo (snd (createUser example_lib example_env_down jane world_dual)) = []
   \<and> mode (getStorageStatus (snd (createUser example_lib example_env_down jane world_dual)))
        = ''dual''
   \<and> mode (getStorageStatus (snd (createUser example_lib example_env_down jane world_dual)))
        \<noteq> ''file-only''"
proof -
  have uf: "usersFile world_dual = Parsed []" by (simp add: world_dual_eq)
  have c: "mongoConnected world_dual" "User_loaded world_dual" "mongo world_dual = []"
    by (simp_all add: world_dual_eq)
  have n: "newUser_of example_lib example_env_down jane = newUser_of example_lib example_env jane"
    by (simp add: newUser_of_def example_env_down_def example_env_def)
  have e: "save_environment example_env_down = example_save_env\<lparr> db_error := True \<rparr>"
    "new_ObjectId (example_save_env\<lparr> db_error := True \<rparr>) = ''65e1a0000000000000000001''"
    by (simp_all add: example_env_down_def example_save_env_def)
  have s: "User_save example_lib (save_environment example_env_down)
        (User_new (new_ObjectId (save_environment example_env_down))
           ((newUser_of example_lib example_env_down jane)\<lparr> uid := None \<rparr>))
        (mongo world_dual) = Inl (Error ''MongoError: operation failed'')"
    by (simp add: e n c jane_save_down)
  have m: "mongo (saveToMongo example_lib (save_environment example_env_down)
             (newUser_of example_lib example_env_down jane)
             (world_dual\<lparr> usersFile := Parsed [newUser_of example_lib example_env_down jane] \<rparr>))
           = []"
    using s by (simp add: saveToMongo_def Let_def c)
  show ?thesis
    unfolding createUser_fresh [OF uf not_taken_nil]
    using s m by (simp add: Let_def c getStorageStatus_def)
qed

text \<open>
  Claim C2, amended. With a readable file in which the address of the payload is not
  taken, \<open>createUser\<close> returns the created record for every environment and every state
  of the secondary store: a save that throws (validation, duplicate key, an error of the
  driver) never reaches the caller. The call does not change the flag, and the status view
  afterwards reports the flag: mode \<open>file-only\<close> when the flag is false, mode \<open>dual\<close>
  when it is true, whatever happened to the save. The flag is false, and the mode
  \<open>file-only\<close>, after an initialisation in which mongoose is absent or the connection
  attempt fails.
\<close>

theorem createUser_absorbs_secondary_failure:
  assumes uf: "usersFile w = Parsed users"
    and fresh: "\<not> emailTaken users (userData.email ud)"
  shows "(\<exists>w'. createUser L e ud w = (Inr ((newUser_of L e ud)\<lparr> password := None \<rparr>), w')
            \<and> usersFile w' = Parsed (users @ [newUser_of L e ud])
            \<and> mongoConnected w' = mongoConnected w
            \<and> mode (getStorageStatus w')
                = (if mongoConnected w then ''dual'' else ''file-only''))
       \<and> ((mongoose_loaded w0 \<longrightarrow> readyState ie = 0 \<and> \<not> connect_ok ie)
            \<longrightarrow> \<not> mongoConnected (init ie (DualStorage_new w0))
              \<and> mode (getStorageStatus (init ie (DualStorage_new w0))) = ''file-only'')"
proof -
  have a: "\<exists>w'. createUser L e ud w = (Inr ((newUser_of L e ud)\<lparr> password := None \<rparr>), w')
            \<and> usersFile w' = Parsed (users @ [newUser_of L e ud])
            \<and> mongoConnected w' = mongoConnected w
            \<and> mode (getStorageStatus w')
                = (if mongoConnected w then ''dual'' else ''file-only'')"
    unfolding createUser_fresh [OF uf fresh]
    by (simp add: Let_def getStorageStatus_def)
  have b: "(mongoose_loaded w0 \<longrightarrow> readyState ie = 0 \<and> \<not> connect_ok ie)
            \<longrightarrow> \<not> mongoConnected (init ie (DualStorage_new w0))
              \<and> mode (getStorageStatus (init ie (DualStorage_new w0))) = ''file-only''"
    by (simp add: init_def initFileStorage_def initMongoStorage_def DualStorage_new_def Let_def
        getStorageStatus_def split: json_file.splits)
  from a b show ?thesis by blast
qed

theorem createUser_absorbs_secondary_failure_witness:
  "usersFile world_dual = Parsed []
   \<and> usersFile world_file_only = Parsed []
   \<and> \<not> emailTaken [] (userData.email jane)
   \<and> mongoConnected world_dual
   \<and> \<not> mongoConnected world_file_only
   \<and> fst (createUser example_lib example_env_down jane world_dual)
        = Inr ((newUser_of example_lib example_env_down jane)\<lparr> password := None \<rparr>)
   \<and> mode (getStorageStatus (snd (createUser example_lib example_env_down jane world_dual)))
        = ''dual''
   \<and> fst (createUser example_lib example_env jane world_file_only)
        = Inr ((newUser_of example_lib example_env jane)\<lparr> password := None \<rparr>)
   \<and> mode (getStorageStatus (snd (createUser example_lib example_env jane world_file_only)))
        = ''file-only''
   \<and> readyState (example_init_env False) = 0
   \<and> \<not> connect_ok (example_init_env False)
   \<and> mode (getStorageStatus (init (example_init_env False) (DualStorage_new fresh_world)))
        = ''file-only''"
proof -
  have a: "usersFile world_dual = Parsed []" by (simp add: world_dual_eq)
  have a': "usersFile world_file_only = Parsed []" by (simp add: world_file_only_eq)
  have b: "\<not> emailTaken [] (userData.email jane)" by (rule not_taken_nil)
  have y: "mongoConnected world_dual" by (simp add: world_dual_eq)
  have n: "\<not> mongoConnected world_file_only" by (simp add: world_file_only_eq)
  have i: "readyState (example_init_env False) = 0" "\<not> connect_ok (example_init_env False)"
    by (simp_all add: example_init_env_def)
  from createUser_absorbs_secondary_failure [OF a b, of example_lib example_env_down
         fresh_world "example_init_env False"]
       createUser_absorbs_secondary_failure [OF a' b, of example_lib example_env
         fresh_world "example_init_env False"]
       a a' b y n i
  show ?thesis by auto
qed

text \<open>
  Claim C3 does not hold of the code. In every call of \<open>createUser\<close> that writes to both
  stores, the file receives the hash of the plaintext password, and the collection
  receives the hash of that hash: the pre-save hook of the model hashes the password of a
  new document once more.
\<close>

theorem secondary_store_hashes_again:
  assumes uf: "usersFile w = Parsed users"
    and fresh: "\<not> emailTaken users (userData.email ud)"
    and run: "createUser L e ud w = (r, w')"
    and wrote: "mongo w' \<noteq> mongo w"
  shows "\<exists>f m. usersFile w' = Parsed (users @ [f]) \<and> mongo w' = mongo w @ [m]
           \<and> password f = Some (bcrypt_hash L (userData.password ud) (genSalt e))
           \<and> password m = Some (bcrypt_hash L
                 (bcrypt_hash L (userData.password ud) (genSalt e))
                 (hook_salt (save_environment e)))"
proof -
  let ?f = "newUser_of L e ud"
  let ?m = "pre_save L (hook_salt (save_environment e))
            (User_new (new_ObjectId (save_environment e)) (?f\<lparr> uid := None \<rparr>))"
  from dual_write [OF uf fresh run wrote]
  have "usersFile w' = Parsed (users @ [?f])" "mongo w' = mongo w @ [?m]" by blast+
  moreover have "password ?f = Some (bcrypt_hash L (userData.password ud) (genSalt e))"
    by simp
  moreover have "password ?m = Some (bcrypt_hash L
                 (bcrypt_hash L (userData.password ud) (genSalt e))
                 (hook_salt (save_environment e)))" by simp
  ultimately show ?thesis by blast
qed

theorem secondary_store_hashes_again_witness:
  "usersFile world_dual = Parsed []
   \<and> \<not> emailTaken [] (userData.email jane)
   \<and> createUser example_lib example_env jane world_dual
        = (fst (createUser example_lib example_env jane world_dual), world_jane_dual)
   \<and> mongo world_jane_dual \<noteq> mongo world_dual
   \<and> (\<exists>f m. usersFile world_jane_dual = Parsed [f] \<and> mongo world_jane_dual = [m]
         \<and> password f = Some ''salt-a#secret1''
         \<and> password m = Some ''salt-b#salt-a#secret1'')"
proof -
  have a: "usersFile world_dual = Parsed []" by (simp add: world_dual_eq)
  have b: "\<not> emailTaken [] (userData.email jane)" by (rule not_taken_nil)
  have c: "createUser example_lib example_env jane world_dual
        = (fst (createUser example_lib example_env jane world_dual), world_jane_dual)"
    by (simp add: world_jane_dual_def)
  have d: "mongo world_jane_dual \<noteq> mongo world_dual"
    by (simp add: world_jane_dual_stores world_dual_eq)
  have v: "bcrypt_hash example_lib (userData.password jane) (genSalt example_env)
      = ''salt-a#secret1''"
    "hook_salt (save_environment example_env) = ''salt-b''"
    "bcrypt_hash example_lib ''salt-a#secret1'' ''salt-b'' = ''salt-b#salt-a#secret1''"
    by (simp_all add: example_lib_def example_env_def example_save_env_def jane_def)
  from secondary_store_hashes_again [OF a b c d] a b c d show ?thesis
    by (simp add: v world_dual_eq)
qed

text \<open>
  Claim C4 does not hold as stated: \<open>saveToMongo\<close> deletes \<open>_id\<close> from the copy it
  writes, so that the secondary store generates its own. In the example, the record of the
  collection carries the generated ObjectId and the record of the file the UUID.
\<close>

theorem secondary_identifier_counterexample:
  "map identifier_of (mongo world_jane_dual) = [Some ''65e1a0000000000000000001'']
   \<and> map identifier_of (readUsersFromFile world_jane_dual)
        = [Some ''3b241101-e2bb-4255-8caf-4136c566a962'']
   \<and> map identifier_of (mongo world_jane_dual)
        \<noteq> map identifier_of (readUsersFromFile world_jane_dual)"
  by (simp add: world_jane_dual_stores readUsersFromFile_def readJSON_def identifier_of_def
      example_env_def)

text \<open>
  Claim C4, amended. In every call of \<open>createUser\<close> that writes to both stores, the
  record of the file carries the UUID that the coordinator generated, the record of the
  collection carries the ObjectId that the secondary store generated, and the address of
  the second is the trimmed address of the first: the address, not the identifier, is what
  the two records share.
\<close>

theorem secondary_identifier_generated:
  assumes uf: "usersFile w = Parsed users"
    and fresh: "\<not> emailTaken users (userData.email ud)"
    and run: "createUser L e ud w = (r, w')"
    and wrote: "mongo w' \<noteq> mongo w"
  shows "\<exists>f m. usersFile w' = Parsed (users @ [f]) \<and> mongo w' = mongo w @ [m]
           \<and> uid f = Some (IdString (uuidv4 e))
           \<and> uid m = Some (ObjectId (new_ObjectId (save_environment e)))
           \<and> email m = trim (email f)"
proof -
  let ?f = "newUser_of L e ud"
  let ?m = "pre_save L (hook_salt (save_environment e))
            (User_new (new_ObjectId (save_environment e)) (?f\<lparr> uid := None \<rparr>))"
  from dual_write [OF uf fresh run wrote]
  have "usersFile w' = Parsed (users @ [?f])" "mongo w' = mongo w @ [?m]" by blast+
  moreover have "uid ?f = Some (IdString (uuidv4 e))" by simp
  moreover have "uid ?m = Some (ObjectId (new_ObjectId (save_environment e)))" by simp
  moreover have "email ?m = trim (email ?f)" by (simp add: toLowerCase_idem)
  ultimately show ?thesis by blast
qed

theorem secondary_identifier_generated_witness:
  "usersFile world_dual = Parsed []
   \<and> \<not> emailTaken [] (userData.email jane)
   \<and> createUser example_lib example_env jane world_dual
        = (fst (createUser example_lib example_env jane world_dual), world_jane_dual)
   \<and> mongo world_jane_dual \<noteq> mongo world_dual
   \<and> (\<exists>f m. usersFile world_jane_dual = Parsed [f] \<and> mongo world_jane_dual = [m]
         \<and> uid f = Some (IdString ''3b241101-e2bb-4255-8caf-4136c566a962'')
         \<and> uid m = Some (ObjectId ''65e1a0000000000000000001'')
         \<and> email m = trim (email f))"
proof -
  have a: "usersFile world_dual = Parsed []" by (simp add: world_dual_eq)
  have b: "\<not> emailTaken [] (userData.email jane)" by (rule not_taken_nil)
  have c: "createUser example_lib example_env jane world_dual
        = (fst (createUser example_lib example_env jane world_dual), world_jane_dual)"
    by (simp add: world_jane_dual_def)
  have d: "mongo world_jane_dual \<noteq> mongo world_dual"
    by (simp add: world_jane_dual_stores world_dual_eq)
  have v: "uuidv4 example_env = ''3b241101-e2bb-4255-8caf-4136c566a962''"
    "new_ObjectId (save_environment example_env) = ''65e1a0000000000000000001''"
    by (simp_all add: example_env_def example_save_env_def)
  from secondary_identifier_generated [OF a b c d] a b c d show ?thesis
    by (simp add: v world_dual_eq)
qed

text \<open>
  Claim C5 does not hold of the code. A body whose \<open>terms_accepted\<close> is the string
  \<open>false\<close> passes \<open>preprocessFormData\<close> and the schema of the route; the route answers
  201 and the file then holds a record whose \<open>termsAccepted\<close> is false.
\<close>

theorem terms_not_accepted_is_persisted:
  "statusCode (fst (register example_lib False example_env (jane_body (JStr ''false'')) None
       world_file_only)) = 201
   \<and> map termsAccepted (readUsersFromFile
        (snd (register example_lib False example_env (jane_body (JStr ''false'')) None
           world_file_only)))
       = [False]"
proof -
  let ?ud = "userData_of (jane_value False) None"
  have c: "createUser example_lib example_env ?ud world_file_only =
     (Inr ((newUser_of example_lib example_env ?ud)\<lparr> password := None \<rparr>),
      updateStats (now_stats example_env)
        (world_file_only\<lparr> usersFile := Parsed [newUser_of example_lib example_env ?ud] \<rparr>))"
    using createUser_fresh [of world_file_only "[]" ?ud example_lib example_env]
    by (simp add: world_file_only_eq not_taken_nil Let_def)
  have t: "termsAccepted (newUser_of example_lib example_env ?ud) = False"
    by (simp add: newUser_of_def userData_of_def jane_value_def Let_def)
  show ?thesis
    by (simp add: register_def jane_body_false_valid c Let_def readUsersFromFile_def
        readJSON_def t)
qed

text \<open>
  Claim C6. With a readable file in which the address of the payload is not taken,
  \<open>createUser\<close> returns a record whose address is the lowercased address of the payload
  and which has no password.
\<close>

theorem createUser_result_lowercase_email_no_password:
  assumes uf: "usersFile w = Parsed users"
    and fresh: "\<not> emailTaken users (userData.email ud)"
  shows "\<exists>r w'. createUser L e ud w = (Inr r, w')
           \<and> email r = toLowerCase (userData.email ud) \<and> password r = None"
  using fresh_find [OF fresh]
  by (simp add: createUser_def saveToFile_def readJSON_def uf Let_def)

theorem createUser_result_lowercase_email_no_password_witness:
  "usersFile world_file_only = Parsed []
   \<and> \<not> emailTaken [] (userData.email jane)
   \<and> (\<exists>r w'. createUser example_lib example_env jane world_file_only = (Inr r, w')
        \<and> email r = ''jane@x.com'' \<and> password r = None)"
proof -
  have a: "usersFile world_file_only = Parsed []" by (simp add: world_file_only_eq)
  have b: "\<not> emailTaken [] (userData.email jane)" by (rule not_taken_nil)
  have l: "toLowerCase (userData.email jane) = ''jane@x.com''"
    by (simp add: jane_def lower_examples)
  from createUser_result_lowercase_email_no_password [OF a b, of example_lib example_env] a b
  show ?thesis by (simp add: l)
qed

text \<open>
  Claim C7. Two runs of \<open>migrateUsers\<close> in succession, both connected and complete:
  the driver throws on no query and no insert. The second run leaves the world as the first left
  it. When the file holds no record, neither run prints a summary. Otherwise both do, the
  second reports no migrated record, its counter of skipped records counts its skipped
  lines, and every record that the first run migrated or skipped is skipped by the second.
\<close>

theorem migrateUsers_idempotent:
  assumes c1: "connect_succeeds e1" and c2: "connect_succeeds e2"
    and nf1: "no_faults e1" and nf2: "no_faults e2"
    and run1: "migrateUsers L e1 w = (s1, w1)"
    and run2: "migrateUsers L e2 w1 = (s2, w2)"
  shows "w2 = w1
     \<and> (readUsersFromFile w = [] \<longrightarrow> s1 = None \<and> s2 = None)
     \<and> (readUsersFromFile w \<noteq> [] \<longrightarrow>
          (\<exists>r1 r2. s1 = Some r1 \<and> s2 = Some r2
             \<and> migrated r2 = 0
             \<and> skipped r2 = count_list (lines r2) Skipped
             \<and> length (lines r1) = length (readUsersFromFile w)
             \<and> length (lines r2) = length (readUsersFromFile w)
             \<and> (\<forall>j < length (readUsersFromFile w).
                   lines r1 ! j \<noteq> Errored \<longrightarrow> lines r2 ! j = Skipped)))"
proof (cases "readUsersFromFile w = []")
  case True
  with run1 have "s1 = None" "w1 = w" by (simp_all add: migrateUsers_empty)
  with run2 True show ?thesis by (simp add: migrateUsers_empty)
next
  case False
  let ?fs = "readUsersFromFile w"
  let ?c0 = "\<lparr> migratedCount = 0, skippedCount = 0, errorCount = 0, logged = [] \<rparr>"
  obtain k1 coll1 where l1: "migrate_loop L e1 0 ?fs ?c0 (mongo w) = (k1, coll1)"
    by (cases "migrate_loop L e1 0 ?fs ?c0 (mongo w)") auto
  from migrateUsers_run [OF c1 False l1] run1
  have s1: "s1 = Some \<lparr> migrated = migratedCount k1, skipped = skippedCount k1,
                errored = errorCount k1, total_in_file = length ?fs, lines = logged k1 \<rparr>"
    and w1: "w1 = w\<lparr> mongo := coll1 \<rparr>" by simp_all
  from migrate_loop_first [OF nf1 l1] obtain os new where
    first: "logged k1 = os" "coll1 = mongo w @ new"
      "list_all2 (\<lambda>fu out. (out \<noteq> Errored \<longrightarrow> has_email (email fu) coll1)
                \<and> (has_email (email fu) coll1 \<or> \<not> acceptable L fu)) ?fs os"
    by auto
  have fs1: "readUsersFromFile w1 = ?fs" by (simp add: w1)
  have m1: "mongo w1 = coll1" by (simp add: w1)
  from first(3) have P: "\<forall>fu\<in>set ?fs. has_email (email fu) coll1 \<or> \<not> acceptable L fu"
    by (auto simp: list_all2_conv_all_nth in_set_conv_nth)
  from migrate_loop_second [OF nf2 P, where i=0 and c="?c0"] obtain k2 where
    second: "migrate_loop L e2 0 ?fs ?c0 coll1 = (k2, coll1)"
      "migratedCount k2 = 0"
      "logged k2 = map (\<lambda>fu. if has_email (email fu) coll1 then Skipped else Errored) ?fs"
    by auto
  have "counted ?c0" by (simp add: counted_def)
  from migrate_loop_counted [OF this second(1)]
  have k2c: "skippedCount k2 = count_list (logged k2) Skipped"
    by (simp add: counted_def)
  from False fs1 have ne1: "readUsersFromFile w1 \<noteq> []" by simp
  from second(1)
  have l2: "migrate_loop L e2 0 (readUsersFromFile w1) ?c0 (mongo w1) = (k2, coll1)"
    by (simp add: fs1 m1)
  from migrateUsers_run [OF c2 ne1 l2] run2
  have s2: "s2 = Some \<lparr> migrated = migratedCount k2, skipped = skippedCount k2,
                errored = errorCount k2, total_in_file = length ?fs, lines = logged k2 \<rparr>"
    and w2: "w2 = w1\<lparr> mongo := coll1 \<rparr>" by (simp_all add: fs1)
  have same: "w2 = w1" by (simp add: w2 w1)
  have len1: "length (logged k1) = length ?fs"
    using first(1,3) by (simp add: list_all2_lengthD)
  have pointwise: "\<forall>j < length ?fs. logged k1 ! j \<noteq> Errored \<longrightarrow> logged k2 ! j = Skipped"
    using first(1,3) second(3) by (auto simp: list_all2_conv_all_nth)
  show ?thesis
    using False same s1 s2 second(2,3) k2c len1 pointwise by simp
qed

theorem migrateUsers_idempotent_witness:
  "connect_succeeds example_migrate_env \<and> no_faults example_migrate_env
   \<and> readUsersFromFile migration_world \<noteq> []
   \<and> fst (migrateUsers example_lib example_migrate_env migration_world)
       = Some \<lparr> migrated = 1, skipped = 0, errored = 1, total_in_file = 2,
                lines = [Migrated, Errored] \<rparr>
   \<and> (\<exists>r2. fst (migrateUsers example_lib example_migrate_env
                  (snd (migrateUsers example_lib example_migrate_env migration_world)))
            = Some r2
         \<and> migrated r2 = 0 \<and> lines r2 ! 0 = Skipped)
   \<and> snd (migrateUsers example_lib example_migrate_env
             (snd (migrateUsers example_lib example_migrate_env migration_world)))
       = snd (migrateUsers example_lib example_migrate_env migration_world)"
proof -
  let ?w1 = "snd (migrateUsers example_lib example_migrate_env migration_world)"
  have c: "connect_succeeds example_migrate_env" by (simp add: example_migrate_env_def)
  have ne: "readUsersFromFile migration_world \<noteq> []"
    by (simp add: readUsersFromFile_def readJSON_def migration_world_def)
  have len: "0 < length (readUsersFromFile migration_world)" using ne by simp
  have r1: "migrateUsers example_lib example_migrate_env migration_world
      = (fst (migrateUsers example_lib example_migrate_env migration_world), ?w1)" by simp
  have r2: "migrateUsers example_lib example_migrate_env ?w1
      = (fst (migrateUsers example_lib example_migrate_env ?w1),
         snd (migrateUsers example_lib example_migrate_env ?w1))" by simp
  from migrateUsers_idempotent [OF c c example_no_faults example_no_faults r1 r2]
    ne len example_first_run c example_no_faults
  show ?thesis by auto
qed

text \<open>
  Claim C8. When \<open>syncFromMongoToFile\<close> connects, the query answers and every document
  has its \<open>_id\<close>, the file afterwards holds exactly the serialized collection, whatever it
  held before. In the example the collection holds A and B and the file A and C; afterwards
  the file holds A and B.
\<close>

theorem syncFromMongoToFile_overwrites:
  assumes "sync_connect_succeeds e" and "\<not> find_error e"
    and "list_all (\<lambda>d. uid d \<noteq> None) (mongo w)"
  shows "usersFile (syncFromMongoToFile e w) = Parsed (map (serialized (sync_now e)) (mongo w))"
  using assms
  by (simp add: syncFromMongoToFile_def User_find_def Let_def convertedUsers_serialized)

theorem syncFromMongoToFile_overwrites_witness:
  "sync_connect_succeeds example_sync_env \<and> \<not> find_error example_sync_env
   \<and> list_all (\<lambda>d. uid d \<noteq> None) (mongo sync_world)
   \<and> usersFile sync_world
       = Parsed [example_record ''65e1a0000000000000000001'' ''a@x.com'' True,
                 example_record ''id-c'' ''c@x.com'' True]
   \<and> usersFile (syncFromMongoToFile example_sync_env sync_world)
       = Parsed [example_record ''65e1a0000000000000000001'' ''a@x.com'' True,
                 example_record ''65e1a0000000000000000002'' ''b@x.com'' True]"
proof -
  have a: "sync_connect_succeeds example_sync_env" "\<not> find_error example_sync_env"
    by (simp_all add: example_sync_env_def)
  have b: "list_all (\<lambda>d. uid d \<noteq> None) (mongo sync_world)"
    by (simp add: sync_world_def example_doc_def)
  have m: "mongo sync_world = [example_doc ''65e1a0000000000000000001'' ''a@x.com'',
                example_doc ''65e1a0000000000000000002'' ''b@x.com'']"
    by (simp add: sync_world_def)
  have f: "usersFile sync_world
       = Parsed [example_record ''65e1a0000000000000000001'' ''a@x.com'' True,
                 example_record ''id-c'' ''c@x.com'' True]"
    by (simp add: sync_world_def)
  from syncFromMongoToFile_overwrites [OF a b] a b f show ?thesis
    by (simp add: m serialized_example_doc)
qed

text \<open>
  Claim C9. In a world reached from the initialised empty state by calls of
  \<open>createUser\<close> of which \<open>n\<close> succeeded, the statistics file holds \<open>totalUsers\<close> equal
  to the number of records of the users file, and that number is \<open>n\<close>.
\<close>

theorem totalUsers_equals_record_count:
  assumes "reachable L n w"
  shows "\<exists>users st. usersFile w = Parsed users \<and> statsFile w = Parsed st
           \<and> totalUsers st = length users \<and> length users = n"
  using reachable_store_ok [OF assms] by (auto simp: store_ok_def)

theorem totalUsers_equals_record_count_witness:
  "reachable example_lib 1 world_jane
   \<and> (\<exists>users st. usersFile world_jane = Parsed users \<and> statsFile world_jane = Parsed st
         \<and> totalUsers st = 1 \<and> length users = 1)"
  using totalUsers_equals_record_count [OF reachable_world_jane] reachable_world_jane by auto

text \<open>
  Claim C10. In every world that the coordinator reaches, every record of the file has a
  lowercase address, no two records have the same address even without regard to case,
  and the equality test of \<open>saveToFile\<close> against the lowercased address of a payload
  finds a record exactly when that address is taken without regard to case.
\<close>

theorem stored_emails_lowercase_unique:
  assumes "reachable L n w"
  shows "\<exists>users. usersFile w = Parsed users
           \<and> list_all (\<lambda>u. email u = toLowerCase (email u)) users
           \<and> distinct (map (\<lambda>u. toLowerCase (email u)) users)
           \<and> (\<forall>e. (find (\<lambda>u. email u = toLowerCase e) users \<noteq> None) = emailTaken users e)"
proof -
  from reachable_store_ok [OF assms] obtain users where
    u: "usersFile w = Parsed users" "emails_lowercase users" "distinct (map email users)"
    by (auto simp: store_ok_def)
  show ?thesis
    using u lowercase_find [OF u(2)] lowercase_distinct [OF u(2) u(3)]
    by (auto simp: emails_lowercase_def)
qed

theorem stored_emails_lowercase_unique_witness:
  "reachable example_lib 1 world_jane
   \<and> (\<exists>users. usersFile world_jane = Parsed users
         \<and> list_all (\<lambda>u. email u = toLowerCase (email u)) users
         \<and> (find (\<lambda>u. email u = toLowerCase ''Jane@X.com'') users \<noteq> None)
             = emailTaken users ''Jane@X.com'')"
  using stored_emails_lowercase_unique [OF reachable_world_jane] reachable_world_jane by auto

end
